theory Spec2Isabelle
  imports Complex_Main "HOL-Library.Sublist" "HOL-Library.Word"
begin

section \<open>Values of the JavaScript platform\<close>

text \<open>
  A value raised by \<^verbatim>\<open>throw\<close> and seen by a \<^verbatim>\<open>catch\<close> block. The code
  distinguishes \<^verbatim>\<open>error instanceof Error\<close> (an object with a \<^verbatim>\<open>message\<close>) from any
  other value, of which it only uses what \<^verbatim>\<open>JSON.stringify\<close> (or, when that raises,
  \<^verbatim>\<open>String\<close>) yields. A non-Error value is therefore represented by that result: a
  text, or \<open>None\<close> for the values on which \<^verbatim>\<open>JSON.stringify\<close> returns
  \<^verbatim>\<open>undefined\<close> without raising (\<^verbatim>\<open>undefined\<close> itself, functions, symbols).
\<close>

datatype thrown = ErrorObj string | NonError "string option"

text \<open>An \<^verbatim>\<open>Error\<close> object created by the repository's own code, with its message.\<close>

datatype error = Error (message: string)

text \<open>\<^verbatim>\<open>haystack.includes(needle)\<close>: the needle occurs as a contiguous substring.\<close>

fun str_includes :: "string \<Rightarrow> string \<Rightarrow> bool" where
  "str_includes [] n = (n = [])"
| "str_includes (c # cs) n = (prefix n (c # cs) \<or> str_includes cs n)"

text \<open>Truthiness of an optional string: \<^verbatim>\<open>null\<close>, \<^verbatim>\<open>undefined\<close> and \<^verbatim>\<open>""\<close> are falsy.\<close>

definition truthy :: "string option \<Rightarrow> bool" where
  "truthy v = (case v of None \<Rightarrow> False | Some s \<Rightarrow> s \<noteq> [])"

text \<open>A number interpolated into a template literal: its decimal digits.\<close>

fun decimal :: "nat \<Rightarrow> string" where
  "decimal n = (if n < 10 then [char_of (48 + n)]
                else decimal (n div 10) @ [char_of (48 + n mod 10)])"

section \<open>The gateway service (services/geminiService): data\<close>

subsection \<open>Video generation: request, operation handle, replies\<close>

datatype aspect_ratio = Landscape_16_9 | Portrait_9_16

text \<open>The argument object of \<^verbatim>\<open>videoAI.models.generateVideos\<close>, as the service builds it.\<close>

record video_request =
  model :: string
  req_prompt :: string
  image :: "(string \<times> string) option"  \<comment> \<open>\<^verbatim>\<open>{imageBytes, mimeType}\<close> or \<^verbatim>\<open>undefined\<close>\<close>
  numberOfVideos :: nat
  req_aspectRatio :: aspect_ratio
  resolution :: string

text \<open>
  The operation handle. The service reads \<^verbatim>\<open>operation.done\<close> and
  \<^verbatim>\<open>operation.response?.generatedVideos?.[0]?.video?.uri\<close>; every link of that
  optional chain may be absent.
\<close>

record video =
  uri :: "string option"

record generated_video =
  gv_video :: "video option"

record videos_response =
  generatedVideos :: "generated_video list option"

record operation =
  op_name :: string  \<comment> \<open>\<^verbatim>\<open>operation.name\<close>, carried along with the handle\<close>
  op_done :: bool  \<comment> \<open>\<^verbatim>\<open>operation.done\<close>\<close>
  response :: "videos_response option"

record fetch_response =
  ok :: bool
  status :: nat
  blob :: "thrown + string"  \<comment> \<open>\<^verbatim>\<open>await response.blob()\<close>: the bytes, or a rejection\<close>

text \<open>
  The world outside the repository, as far as one call of \<^verbatim>\<open>generateVideoWithPrompt\<close>
  sees it: the configured key, the reply to the submission, the replies to the successive
  status queries in the order they are made, the reply of \<^verbatim>\<open>fetch\<close> to a URL, the
  object URL that \<^verbatim>\<open>URL.createObjectURL\<close> hands out for a blob, and the message of the
  TypeError that the engine raises when a method is called on \<^verbatim>\<open>undefined\<close>.
\<close>

record gateway =
  API_KEY :: string
  generateVideos :: "video_request \<Rightarrow> thrown + operation"
  getVideosOperation :: "(thrown + operation) list"
  fetch :: "string \<Rightarrow> thrown + fetch_response"
  createObjectURL :: "string \<Rightarrow> string"
  typeErrorMessage :: string

subsection \<open>Image editing: request and reply\<close>

text \<open>
  A part of a \<^verbatim>\<open>generateContent\<close> request or reply: inline data with its mime type,
  or text.
\<close>

datatype part = InlineData string string | TextPart string

record content_request =
  cr_model :: string
  parts :: "part list"
  responseModalities :: "string list"

section \<open>The browser's canvas\<close>

text \<open>
  \<^verbatim>\<open>convertImageFormat\<close> draws on a 2D canvas. The canvas belongs to the browser, not to
  the repository; the calls the code makes are given their meaning from the HTML canvas
  model: a surface of RGBA pixels with 8-bit channels, created transparent black, on which
  \<^verbatim>\<open>fillRect\<close> and \<^verbatim>\<open>drawImage\<close> composite with the default source-over rule.
\<close>

type_synonym channel = "8 word"

record pixel =
  red :: channel
  green :: channel
  blue :: channel
  alpha :: channel

record raster =
  width :: nat
  height :: nat
  pixels :: "pixel list"  \<comment> \<open>row by row\<close>

datatype canvas_cmd =
    LoadImage string              \<comment> \<open>\<^verbatim>\<open>img.src = url\<close>: the browser decodes the image\<close>
  | SetSize nat nat               \<comment> \<open>\<^verbatim>\<open>canvas.width = w; canvas.height = h\<close>\<close>
  | FillStyle string              \<comment> \<open>\<^verbatim>\<open>ctx.fillStyle = colour\<close>\<close>
  | FillRect nat nat nat nat      \<comment> \<open>\<^verbatim>\<open>ctx.fillRect(x, y, w, h)\<close>\<close>
  | DrawImage raster nat nat      \<comment> \<open>\<^verbatim>\<open>ctx.drawImage(img, x, y)\<close>\<close>
  | ToDataURL string rat          \<comment> \<open>\<^verbatim>\<open>canvas.toDataURL(type, quality)\<close>\<close>

record canvas =
  surface :: raster
  fillStyle :: pixel

section \<open>Events\<close>

text \<open>What the code does to the outside world, in order.\<close>

datatype event =
    GenerateVideos video_request
  | Sleep nat                      \<comment> \<open>\<^verbatim>\<open>setTimeout(resolve, ms)\<close>\<close>
  | GetVideosOperation operation   \<comment> \<open>the handle passed to the status query\<close>
  | Fetch string
  | ReadBlob
  | CreateObjectURL string string  \<comment> \<open>the blob, and the URL handed out for it\<close>
  | RevokeObjectURL string
  | GenerateContent content_request
  | Canvas canvas_cmd
  | ConsoleError string thrown     \<comment> \<open>\<^verbatim>\<open>console.error(label, value)\<close>\<close>

section \<open>The service functions\<close>

subsection \<open>generateVideoWithPrompt\<close>

text \<open>
  \<^verbatim>\<open>operation.response?.generatedVideos?.[0]?.video?.uri\<close>
\<close>

definition downloadLink :: "operation \<Rightarrow> string option" where
  "downloadLink opn =
     (case response opn of
        None \<Rightarrow> None
      | Some r \<Rightarrow>
         (case generatedVideos r of
            None \<Rightarrow> None
          | Some gs \<Rightarrow>
             (case gs of
                [] \<Rightarrow> None
              | g # _ \<Rightarrow> (case gv_video g of None \<Rightarrow> None | Some v \<Rightarrow> uri v))))"

text \<open>
  The polling loop
  \<^verbatim>\<open>while (!operation.done) { await sleep(10000); operation = await getVideosOperation({operation}) }\<close>
  run against the replies the gateway gives to the successive status queries. The source
  puts no ceiling on the loop: when the job is not done and the gateway gives no further
  reply, the loop never returns, which is the value \<open>None\<close>. Otherwise the result is the
  value a query raised, or the first handle that reports done, with the events performed.
\<close>

fun awaitDone :: "operation \<Rightarrow> (thrown + operation) list
    \<Rightarrow> ((thrown + operation) \<times> event list) option" where
  "awaitDone opn [] = (if op_done opn then Some (Inr opn, []) else None)"
| "awaitDone opn (r # rs) =
     (if op_done opn then Some (Inr opn, [])
      else (case r of
              Inl t \<Rightarrow> Some (Inl t, [Sleep 10000, GetVideosOperation opn])
            | Inr opn' \<Rightarrow>
               (case awaitDone opn' rs of
                  None \<Rightarrow> None
                | Some (res, tr) \<Rightarrow> Some (res, Sleep 10000 # GetVideosOperation opn # tr))))"

text \<open>The statements after the loop, still inside \<^verbatim>\<open>try\<close>: link check, download, object URL.\<close>

definition retrieve :: "gateway \<Rightarrow> operation \<Rightarrow> (thrown + string) \<times> event list" where
  "retrieve gw opn =
     (case downloadLink opn of
        None \<Rightarrow>
          (Inl (ErrorObj ''Video generation succeeded but no download link was found.''), [])
      | Some link \<Rightarrow>
          (if link = []
           then (Inl (ErrorObj ''Video generation succeeded but no download link was found.''), [])
           else
             (let url = link @ ''&key='' @ API_KEY gw in
              case fetch gw url of
                Inl t \<Rightarrow> (Inl t, [Fetch url])
              | Inr resp \<Rightarrow>
                 (if \<not> ok resp
                  then (Inl (ErrorObj (''Failed to download the generated video. Status: ''
                                        @ decimal (status resp))), [Fetch url])
                  else (case blob resp of
                          Inl t \<Rightarrow> (Inl t, [Fetch url, ReadBlob])
                        | Inr b \<Rightarrow> (Inr (createObjectURL gw b),
                                    [Fetch url, ReadBlob,
                                     CreateObjectURL b (createObjectURL gw b)]))))))"

text \<open>The argument the service passes to \<^verbatim>\<open>generateVideos\<close>.\<close>

definition videoRequest :: "string \<Rightarrow> aspect_ratio \<Rightarrow> (string \<times> string) option
    \<Rightarrow> video_request" where
  "videoRequest prompt aspectRatio startingImage =
     \<lparr> model = ''veo-3.1-fast-generate-preview'', req_prompt = prompt,
       image = startingImage, numberOfVideos = 1,
       req_aspectRatio = aspectRatio, resolution = ''720p'' \<rparr>"

text \<open>The whole \<^verbatim>\<open>try\<close> block: what it returns or raises, and the events up to there.\<close>

definition tryBlock :: "gateway \<Rightarrow> string \<Rightarrow> aspect_ratio \<Rightarrow> (string \<times> string) option
    \<Rightarrow> ((thrown + string) \<times> event list) option" where
  "tryBlock gw prompt aspectRatio startingImage =
     (let req = videoRequest prompt aspectRatio startingImage in
      case generateVideos gw req of
        Inl t \<Rightarrow> Some (Inl t, [GenerateVideos req])
      | Inr op0 \<Rightarrow>
         (case awaitDone op0 (getVideosOperation gw) of
            None \<Rightarrow> None
          | Some (Inl t, tr) \<Rightarrow> Some (Inl t, GenerateVideos req # tr)
          | Some (Inr opn, tr) \<Rightarrow>
             (case retrieve gw opn of (res, tr') \<Rightarrow> Some (res, GenerateVideos req # tr @ tr'))))"

text \<open>
  The \<^verbatim>\<open>catch\<close> block. \<open>errorContent\<close> is the variable of that name after the
  \<^verbatim>\<open>if\<close>/\<^verbatim>\<open>else\<close>: the message of an Error object, or what stringifying yields for
  another value, which may be \<^verbatim>\<open>undefined\<close>. In that case the call
  \<^verbatim>\<open>errorContent.includes(...)\<close> raises a TypeError, which leaves the \<^verbatim>\<open>catch\<close> block
  in place of the Errors the block creates itself.
\<close>

definition errorContent :: "thrown \<Rightarrow> string option" where
  "errorContent e = (case e of ErrorObj m \<Rightarrow> Some m | NonError j \<Rightarrow> j)"

definition catchBlock :: "string \<Rightarrow> thrown \<Rightarrow> error" where
  "catchBlock typeError e =
     (case errorContent e of
        None \<Rightarrow> Error typeError
      | Some content \<Rightarrow>
          (if str_includes content ''Requested entity was not found.''
           then Error
             ''API key not found or invalid. Please select a valid API key and try again.''
           else (case e of
                   ErrorObj m \<Rightarrow> Error (''Failed to generate video: '' @ m)
                 | NonError _ \<Rightarrow>
                     Error ''An unexpected error occurred while generating the video.'')))"

text \<open>
  \<^verbatim>\<open>generateVideoWithPrompt(prompt, aspectRatio, startingImage?)\<close>: \<open>None\<close> when the call
  never settles, otherwise the rejection (\<open>Inl\<close>) or the object URL (\<open>Inr\<close>), with the
  events performed.
\<close>

definition generateVideoWithPrompt :: "gateway \<Rightarrow> string \<Rightarrow> aspect_ratio
    \<Rightarrow> (string \<times> string) option \<Rightarrow> ((error + string) \<times> event list) option" where
  "generateVideoWithPrompt gw prompt aspectRatio startingImage =
     (case tryBlock gw prompt aspectRatio startingImage of
        None \<Rightarrow> None
      | Some (Inl t, tr) \<Rightarrow>
          Some (Inl (catchBlock (typeErrorMessage gw) t),
                tr @ [ConsoleError ''Error generating video with Veo:'' t])
      | Some (Inr url, tr) \<Rightarrow> Some (Inr url, tr))"

subsection \<open>editImageWithPrompt\<close>

text \<open>
  The loop over \<^verbatim>\<open>response.candidates[0].content.parts\<close>: the first part with inline
  data whose mime type starts with \<^verbatim>\<open>image/\<close>.
\<close>

fun firstImagePart :: "part list \<Rightarrow> (string \<times> string) option" where
  "firstImagePart [] = None"
| "firstImagePart (InlineData d m # ps) =
     (if prefix ''image/'' m then Some (d, m) else firstImagePart ps)"
| "firstImagePart (TextPart _ # ps) = firstImagePart ps"

definition editCatch :: "thrown \<Rightarrow> error" where
  "editCatch e =
     (case e of
        ErrorObj m \<Rightarrow> Error (''Failed to generate image: '' @ m)
      | NonError _ \<Rightarrow>
          Error ''An unexpected error occurred while communicating with the Gemini API.'')"

text \<open>
  \<^verbatim>\<open>editImageWithPrompt(base64Image, mimeType, prompt)\<close> against the gateway's
  \<^verbatim>\<open>generateContent\<close>, whose reply is the list of parts of the first candidate or a
  raised value (a reply without that list makes the loop header raise a TypeError in the
  same \<^verbatim>\<open>try\<close>, which is a raised \<open>ErrorObj\<close> here).
\<close>

definition editRequest :: "string \<Rightarrow> string \<Rightarrow> string \<Rightarrow> content_request" where
  "editRequest base64Image mime prompt =
     \<lparr> cr_model = ''gemini-2.5-flash-image'',
       parts = [InlineData base64Image mime, TextPart prompt],
       responseModalities = [''IMAGE''] \<rparr>"

definition editImageWithPrompt :: "(content_request \<Rightarrow> thrown + part list)
    \<Rightarrow> string \<Rightarrow> string \<Rightarrow> string \<Rightarrow> (error + string \<times> string) \<times> event list" where
  "editImageWithPrompt generateContent base64Image mime prompt =
     (let req = editRequest base64Image mime prompt in
      case generateContent req of
        Inl t \<Rightarrow>
          (Inl (editCatch t),
           [GenerateContent req, ConsoleError ''Error editing image with Gemini:'' t])
      | Inr ps \<Rightarrow>
          (case firstImagePart ps of
             Some img \<Rightarrow> (Inr img, [GenerateContent req])
           | None \<Rightarrow>
               (Inl (editCatch (ErrorObj ''No image found in the Gemini API response.'')),
                [GenerateContent req,
                 ConsoleError ''Error editing image with Gemini:''
                   (ErrorObj ''No image found in the Gemini API response.'')])))"

section \<open>The video view (components/VideoGenerator)\<close>

text \<open>
  \<^verbatim>\<open>ImageFile\<close> of \<^verbatim>\<open>types.ts\<close>, without the optional \<^verbatim>\<open>file\<close>, which is stored
  but never read and never persisted.
\<close>

record ImageFile =
  base64 :: string
  mimeType :: string
  dataURL :: string

record VideoGenerator =
  prompt :: string
  aspectRatio :: aspect_ratio
  startingImage :: "ImageFile option"
  isLoading :: bool
  loadingMessage :: string
  error :: "string option"
  videoUrl :: "string option"
  isKeySelected :: bool

text \<open>The values of the \<^verbatim>\<open>useState\<close> hooks when the view is mounted.\<close>

definition initialVideoGenerator :: VideoGenerator where
  "initialVideoGenerator =
     \<lparr> prompt = [], aspectRatio = Landscape_16_9, startingImage = None, isLoading = False,
       loadingMessage = [], error = None, videoUrl = None, isKeySelected = False \<rparr>"

text \<open>
  \<^verbatim>\<open>handleSubmit\<close> in three parts: the two local checks that return early, the
  statements before the \<^verbatim>\<open>await\<close>, and the statements after it
  (\<^verbatim>\<open>try\<close>/\<^verbatim>\<open>catch\<close>/\<^verbatim>\<open>finally\<close>) applied to the settled call.
\<close>

definition submitBlocked :: "VideoGenerator \<Rightarrow> string option" where
  "submitBlocked s =
     (if prompt s = [] then Some ''Please provide a prompt for the video.''
      else if \<not> isKeySelected s then Some ''Please select an API key before generating a video.''
      else None)"

definition releaseVideoUrl :: "VideoGenerator \<Rightarrow> event list" where
  \<comment> \<open>\<^verbatim>\<open>if (videoUrl) { URL.revokeObjectURL(videoUrl); }\<close>\<close>
  "releaseVideoUrl s =
     (case videoUrl s of
        None \<Rightarrow> []
      | Some u \<Rightarrow> (if u = [] then [] else [RevokeObjectURL u]))"

definition beforeAwait :: "VideoGenerator \<Rightarrow> VideoGenerator \<times> event list" where
  "beforeAwait s =
     (s\<lparr> isLoading := True, error := None, videoUrl := None,
         loadingMessage := ''Initiating video generation... this may take a few minutes.'' \<rparr>,
      releaseVideoUrl s)"

definition afterAwait :: "error + string \<Rightarrow> VideoGenerator \<Rightarrow> VideoGenerator" where
  "afterAwait r s =
     (case r of
        Inr generatedUrl \<Rightarrow>
          s\<lparr> videoUrl := Some generatedUrl, isLoading := False, loadingMessage := [] \<rparr>
      | Inl err \<Rightarrow>
          s\<lparr> error := Some (message err),
             isKeySelected := (if str_includes (message err) ''API key not found''
                               then False else isKeySelected s),
             isLoading := False, loadingMessage := [] \<rparr>)"

definition serviceArgument :: "ImageFile option \<Rightarrow> (string \<times> string) option" where
  \<comment> \<open>\<^verbatim>\<open>startingImage ? { base64, mimeType } : undefined\<close>\<close>
  "serviceArgument img = (case img of None \<Rightarrow> None | Some i \<Rightarrow> Some (base64 i, mimeType i))"

text \<open>
  One submission run from the click to the end of \<^verbatim>\<open>finally\<close>: the new state and the
  events, or \<open>None\<close> when the awaited call never settles.
\<close>

definition VideoGenerator_handleSubmit :: "gateway \<Rightarrow> VideoGenerator
    \<Rightarrow> (VideoGenerator \<times> event list) option" where
  "VideoGenerator_handleSubmit gw s =
     (case submitBlocked s of
        Some m \<Rightarrow> Some (s\<lparr> error := Some m \<rparr>, [])
      | None \<Rightarrow>
         (case beforeAwait s of
            (s1, ev1) \<Rightarrow>
              (case generateVideoWithPrompt gw (prompt s) (aspectRatio s)
                      (serviceArgument (startingImage s)) of
                 None \<Rightarrow> None
               | Some (r, ev2) \<Rightarrow> Some (afterAwait r s1, ev1 @ ev2))))"

subsection \<open>The view in the page: mounting, teardown, calls in flight\<close>

text \<open>
  The object URLs that are live after a sequence of events: \<^verbatim>\<open>URL.createObjectURL\<close>
  adds the URL it hands out, \<^verbatim>\<open>URL.revokeObjectURL\<close> removes its argument.
\<close>

fun liveAfter :: "event list \<Rightarrow> string list \<Rightarrow> string list" where
  "liveAfter [] l = l"
| "liveAfter (CreateObjectURL b u # es) l = liveAfter es (u # l)"
| "liveAfter (RevokeObjectURL u # es) l = liveAfter es (removeAll u l)"
| "liveAfter (_ # es) l = liveAfter es l"

text \<open>
  The effect \<^verbatim>\<open>useEffect(() => () => { if (videoUrl) URL.revokeObjectURL(videoUrl) }, [videoUrl])\<close>:
  its cleanup runs with the \<^verbatim>\<open>videoUrl\<close> of the previous render whenever \<^verbatim>\<open>videoUrl\<close>
  changes, and at teardown.
\<close>

definition effectCleanup :: "VideoGenerator \<Rightarrow> VideoGenerator \<Rightarrow> event list" where
  "effectCleanup old new = (if videoUrl old \<noteq> videoUrl new then releaseVideoUrl old else [])"

text \<open>
  The page holds at most one mounted video view (\<^verbatim>\<open>App\<close> renders it only in video
  mode). A call of \<^verbatim>\<open>generateVideoWithPrompt\<close> that has been started stays in flight
  until it settles, whatever happens to the view that started it; when it settles, the
  statements after the \<^verbatim>\<open>await\<close> update the state of that view, which has an effect
  only if that view is still the mounted one. \<open>mounts\<close> counts the views mounted so far
  and so identifies the mounted one.
\<close>

record page =
  view :: "VideoGenerator option"
  mounts :: nat
  inFlight :: "(nat \<times> string \<times> aspect_ratio \<times> (string \<times> string) option) list"
  liveURLs :: "string list"

datatype interaction =
    Mount                 \<comment> \<open>the user switches to video mode\<close>
  | Unmount               \<comment> \<open>the user switches to image mode: teardown of the view\<close>
  | SelectKey             \<comment> \<open>\<^verbatim>\<open>handleSelectKey\<close> / \<^verbatim>\<open>checkApiKey\<close> set \<^verbatim>\<open>isKeySelected\<close>\<close>
  | TypePrompt string
  | ClickGenerate
  | Settle gateway        \<comment> \<open>the oldest call in flight runs to its end against this gateway\<close>

definition initialPage :: page where
  "initialPage = \<lparr> view = None, mounts = 0, inFlight = [], liveURLs = [] \<rparr>"

fun interact :: "page \<Rightarrow> interaction \<Rightarrow> page" where
  "interact p Mount =
     (case view p of
        Some _ \<Rightarrow> p
      | None \<Rightarrow> p\<lparr> view := Some initialVideoGenerator, mounts := Suc (mounts p) \<rparr>)"
| "interact p Unmount =
     (case view p of
        None \<Rightarrow> p
      | Some s \<Rightarrow> p\<lparr> view := None, liveURLs := liveAfter (releaseVideoUrl s) (liveURLs p) \<rparr>)"
| "interact p SelectKey =
     (case view p of
        None \<Rightarrow> p
      | Some s \<Rightarrow> p\<lparr> view := Some (s\<lparr> isKeySelected := True \<rparr>) \<rparr>)"
| "interact p (TypePrompt t) =
     (case view p of
        None \<Rightarrow> p
      | Some s \<Rightarrow>
          (if \<not> isKeySelected s \<or> isLoading s then p
           else p\<lparr> view := Some (s\<lparr> prompt := t \<rparr>) \<rparr>))"
| "interact p ClickGenerate =
     (case view p of
        None \<Rightarrow> p
      | Some s \<Rightarrow>
          (if \<not> isKeySelected s \<or> prompt s = [] \<or> isLoading s then p
           else
             (case submitBlocked s of
                Some m \<Rightarrow> p\<lparr> view := Some (s\<lparr> error := Some m \<rparr>) \<rparr>
              | None \<Rightarrow>
                  (case beforeAwait s of
                     (s1, ev) \<Rightarrow>
                       p\<lparr> view := Some s1,
                          liveURLs := liveAfter (ev @ effectCleanup s s1) (liveURLs p),
                          inFlight := inFlight p @
                            [(mounts p, prompt s, aspectRatio s,
                              serviceArgument (startingImage s))] \<rparr>))))"
| "interact p (Settle gw) =
     (case inFlight p of
        [] \<Rightarrow> p
      | (owner, pr, ar, im) # rest \<Rightarrow>
          (case generateVideoWithPrompt gw pr ar im of
             None \<Rightarrow> p
           | Some (r, ev) \<Rightarrow>
               (case view p of
                  None \<Rightarrow> p\<lparr> inFlight := rest, liveURLs := liveAfter ev (liveURLs p) \<rparr>
                | Some s \<Rightarrow>
                    (if owner = mounts p
                     then p\<lparr> view := Some (afterAwait r s), inFlight := rest,
                             liveURLs := liveAfter (ev @ effectCleanup s (afterAwait r s))
                                           (liveURLs p) \<rparr>
                     else p\<lparr> inFlight := rest, liveURLs := liveAfter ev (liveURLs p) \<rparr>))))"

definition interactions :: "page \<Rightarrow> interaction list \<Rightarrow> page" where
  "interactions p xs = foldl interact p xs"

subsection \<open>Runs without a teardown in flight\<close>

text \<open>
  The state of a page in which every live object URL is the one the mounted view shows:
  without a view nothing is live and nothing in flight; a loading view shows no video,
  nothing is live and its one call is in flight; an idle view has nothing in flight and
  the live URLs are exactly its \<^verbatim>\<open>videoUrl\<close>, if any.
\<close>

definition tidy :: "page \<Rightarrow> bool" where
  "tidy p =
     (case view p of
        None \<Rightarrow> liveURLs p = [] \<and> inFlight p = []
      | Some s \<Rightarrow>
          (if isLoading s
           then videoUrl s = None \<and> liveURLs p = []
                \<and> (\<exists>args. inFlight p = [(mounts p, args)])
           else inFlight p = []
                \<and> (case videoUrl s of
                      None \<Rightarrow> liveURLs p = []
                    | Some u \<Rightarrow> u \<noteq> [] \<and> liveURLs p = [u])))"

text \<open>
  An interaction is calm in a page when it is not a teardown with a call in flight, and,
  if a call settles, the browser hands out non-empty object URLs.
\<close>

definition calm :: "page \<Rightarrow> interaction \<Rightarrow> bool" where
  "calm p x =
     (case x of
        Unmount \<Rightarrow> inFlight p = []
      | Settle gw \<Rightarrow> (\<forall>b. createObjectURL gw b \<noteq> [])
      | _ \<Rightarrow> True)"

fun calmRun :: "page \<Rightarrow> interaction list \<Rightarrow> bool" where
  "calmRun p [] = True"
| "calmRun p (x # xs) = (calm p x \<and> calmRun (interact p x) xs)"

section \<open>The image editor (components/ImageEditor)\<close>

subsection \<open>The meaning of the canvas calls\<close>

text \<open>Source-over compositing of a source pixel on a destination pixel.\<close>

definition over :: "pixel \<Rightarrow> pixel \<Rightarrow> pixel" where
  "over s d =
     (let sa = unat (alpha s); da = unat (alpha d);
          oa = sa + da * (255 - sa) div 255;
          mix = (\<lambda>sc dc. if oa = 0 then 0
                          else (unat sc * sa * 255 + unat dc * da * (255 - sa)) div (255 * oa))
      in \<lparr> red = of_nat (mix (red s) (red d)), green = of_nat (mix (green s) (green d)),
           blue = of_nat (mix (blue s) (blue d)), alpha = of_nat oa \<rparr>)"

text \<open>A colour written \<^verbatim>\<open>#RRGGBB\<close>; any other text leaves \<^verbatim>\<open>fillStyle\<close> as it was.\<close>

definition hexDigit :: "char \<Rightarrow> nat option" where
  "hexDigit c =
     (let n = (of_char c :: nat) in
      if 48 \<le> n \<and> n \<le> 57 then Some (n - 48)
      else if 65 \<le> n \<and> n \<le> 70 then Some (n - 55)
      else if 97 \<le> n \<and> n \<le> 102 then Some (n - 87)
      else None)"

definition hexByte :: "char \<Rightarrow> char \<Rightarrow> channel option" where
  "hexByte h l =
     (case (hexDigit h, hexDigit l) of
        (Some a, Some b) \<Rightarrow> Some (of_nat (16 * a + b))
      | _ \<Rightarrow> None)"

fun cssColour :: "string \<Rightarrow> pixel option" where
  "cssColour [h, r1, r2, g1, g2, b1, b2] =
     (if h = CHR ''#'' then
        (case (hexByte r1 r2, hexByte g1 g2, hexByte b1 b2) of
           (Some r, Some g, Some b) \<Rightarrow> Some \<lparr> red = r, green = g, blue = b, alpha = 255 \<rparr>
         | _ \<Rightarrow> None)
      else None)"
| "cssColour _ = None"

definition pixelAt :: "raster \<Rightarrow> nat \<Rightarrow> nat \<Rightarrow> pixel option" where
  "pixelAt img col row =
     (if col < width img \<and> row < height img \<and> row * width img + col < length (pixels img)
      then Some (pixels img ! (row * width img + col)) else None)"

text \<open>Every pixel of a surface replaced by a function of its column, its row and itself.\<close>

definition repaint :: "(nat \<Rightarrow> nat \<Rightarrow> pixel \<Rightarrow> pixel) \<Rightarrow> raster \<Rightarrow> raster" where
  "repaint f r =
     r\<lparr> pixels := map (\<lambda>(i, d). f (i mod width r) (i div width r) d)
                        (zip [0 ..< length (pixels r)] (pixels r)) \<rparr>"

fun exec :: "canvas \<Rightarrow> canvas_cmd \<Rightarrow> canvas" where
  "exec c (LoadImage u) = c"
| "exec c (SetSize w h) =
     c\<lparr> surface := \<lparr> width = w, height = h,
          pixels = replicate (w * h) \<lparr> red = 0, green = 0, blue = 0, alpha = 0 \<rparr> \<rparr> \<rparr>"
| "exec c (FillStyle colour) =
     (case cssColour colour of None \<Rightarrow> c | Some p \<Rightarrow> c\<lparr> fillStyle := p \<rparr>)"
| "exec c (FillRect x y w h) =
     c\<lparr> surface := repaint (\<lambda>col row d.
          if x \<le> col \<and> col < x + w \<and> y \<le> row \<and> row < y + h
          then over (fillStyle c) d else d) (surface c) \<rparr>"
| "exec c (DrawImage img x y) =
     c\<lparr> surface := repaint (\<lambda>col row d.
          if x \<le> col \<and> y \<le> row
          then (case pixelAt img (col - x) (row - y) of None \<Rightarrow> d | Some s \<Rightarrow> over s d)
          else d) (surface c) \<rparr>"
| "exec c (ToDataURL t q) = c"

text \<open>A canvas as \<^verbatim>\<open>document.createElement('canvas')\<close> yields it.\<close>

definition newCanvas :: canvas where
  "newCanvas =
     \<lparr> surface = \<lparr> width = 300, height = 150,
         pixels = replicate (300 * 150) \<lparr> red = 0, green = 0, blue = 0, alpha = 0 \<rparr> \<rparr>,
       fillStyle = \<lparr> red = 0, green = 0, blue = 0, alpha = 255 \<rparr> \<rparr>"

definition paint :: "canvas_cmd list \<Rightarrow> canvas" where
  "paint cmds = foldl exec newCanvas cmds"

subsection \<open>convertImageFormat\<close>

datatype output_format = PNG | JPEG

definition mimeOf :: "output_format \<Rightarrow> string" where
  "mimeOf f = (case f of PNG \<Rightarrow> ''image/png'' | JPEG \<Rightarrow> ''image/jpeg'')"

text \<open>
  What the browser does for the conversion and the repository does not: decoding the data
  URL assigned to \<^verbatim>\<open>img.src\<close> (\<open>None\<close>: \<^verbatim>\<open>onerror\<close> fires), whether
  \<^verbatim>\<open>getContext('2d')\<close> yields a context, and the encoder behind \<^verbatim>\<open>toDataURL\<close>.
\<close>

record browser =
  decodeImage :: "string \<Rightarrow> raster option"
  getContext2d :: bool
  encodeImage :: "raster \<Rightarrow> string \<Rightarrow> rat \<Rightarrow> string"

text \<open>The canvas calls of the \<^verbatim>\<open>onload\<close> handler, in the order it makes them.\<close>

definition canvasCalls :: "raster \<Rightarrow> output_format \<Rightarrow> canvas_cmd list" where
  "canvasCalls img toMimeType =
     [SetSize (width img) (height img)]
     @ (if toMimeType = JPEG
        then [FillStyle ''#FFFFFF'', FillRect 0 0 (width img) (height img)] else [])
     @ [DrawImage img 0 0, ToDataURL (mimeOf toMimeType) (9 / 10)]"

definition convertImageFormat :: "browser \<Rightarrow> string \<Rightarrow> string \<Rightarrow> output_format
    \<Rightarrow> (error + string) \<times> canvas_cmd list" where
  "convertImageFormat br base64Data fromMimeType toMimeType =
     (let url = ''data:'' @ fromMimeType @ '';base64,'' @ base64Data in
      case decodeImage br url of
        None \<Rightarrow>
          (Inl (Error ''Image loading failed for conversion: [object Event]''), [LoadImage url])
      | Some img \<Rightarrow>
          (if \<not> getContext2d br
           then (Inl (Error ''Could not get canvas context''),
                 [LoadImage url, SetSize (width img) (height img)])
           else (Inr (encodeImage br (surface (paint (canvasCalls img toMimeType)))
                        (mimeOf toMimeType) (9 / 10)),
                 LoadImage url # canvasCalls img toMimeType)))"

subsection \<open>State, local storage, JSON\<close>

record ImageEditor =
  originalImage :: "ImageFile option"
  editedImage :: "string option"
  prompt :: string
  isLoading :: bool
  error :: "string option"
  outputFormat :: output_format
  history :: "string list"

definition initialImageEditor :: ImageEditor where
  "initialImageEditor =
     \<lparr> originalImage = None, editedImage = None, prompt = [], isLoading = False,
       error = None, outputFormat = PNG, history = [] \<rparr>"

text \<open>
  The content of \<^verbatim>\<open>localStorage\<close>: \<^verbatim>\<open>getItem\<close> is application, \<^verbatim>\<open>removeItem\<close> is
  an update to \<open>None\<close>, \<^verbatim>\<open>clear\<close> is the empty map.
\<close>

type_synonym storage = "string \<Rightarrow> string option"

text \<open>
  What the platform does for the editor and the repository does not. \<^verbatim>\<open>JSON.parse\<close>
  and \<^verbatim>\<open>JSON.stringify\<close> are taken at the two types the editor uses them at; \<open>Inl\<close> is
  the SyntaxError that \<^verbatim>\<open>JSON.parse\<close> raises on text that is not JSON. \<open>quotaError\<close> is
  the browser's decision on a \<^verbatim>\<open>localStorage.setItem(key, value)\<close> in a given store:
  \<open>None\<close> when the item is stored, otherwise the exception raised (a
  QuotaExceededError), in which case the store is left as it was.
\<close>

record platform =
  parseImage :: "string \<Rightarrow> thrown + ImageFile"
  parseHistory :: "string \<Rightarrow> thrown + string list"
  stringifyImage :: "ImageFile \<Rightarrow> string"
  stringifyHistory :: "string list \<Rightarrow> string"
  quotaError :: "storage \<Rightarrow> string \<Rightarrow> string \<Rightarrow> thrown option"

text \<open>\<^verbatim>\<open>localStorage.setItem(key, value)\<close>: the exception raised, if any, and the store after.\<close>

definition setItem :: "platform \<Rightarrow> storage \<Rightarrow> string \<Rightarrow> string \<Rightarrow> thrown option \<times> storage" where
  "setItem js st k v =
     (case quotaError js st k v of
        None \<Rightarrow> (None, st(k \<mapsto> v))
      | Some e \<Rightarrow> (Some e, st))"

subsection \<open>Loading the persisted session at startup\<close>

text \<open>
  The three guarded statements of the \<^verbatim>\<open>try\<close> block, each applied to the item read
  before: \<open>Inl\<close> when \<^verbatim>\<open>JSON.parse\<close> raises, otherwise the state with the setter applied.
\<close>

definition restoreOriginal :: "platform \<Rightarrow> string option \<Rightarrow> ImageEditor
    \<Rightarrow> thrown + ImageEditor" where
  "restoreOriginal js savedOriginal s =
     (case savedOriginal of
        None \<Rightarrow> Inr s
      | Some t \<Rightarrow>
          (if t = [] then Inr s
           else (case parseImage js t of
                   Inl e \<Rightarrow> Inl e
                 | Inr img \<Rightarrow> Inr (s\<lparr> originalImage := Some img \<rparr>))))"

definition restoreEdited :: "string option \<Rightarrow> ImageEditor \<Rightarrow> ImageEditor" where
  "restoreEdited savedEdited s =
     (case savedEdited of
        None \<Rightarrow> s
      | Some t \<Rightarrow> (if t = [] then s else s\<lparr> editedImage := Some t \<rparr>))"

definition restoreHistory :: "platform \<Rightarrow> string option \<Rightarrow> ImageEditor
    \<Rightarrow> thrown + ImageEditor" where
  "restoreHistory js savedHistory s =
     (case savedHistory of
        None \<Rightarrow> Inr s
      | Some t \<Rightarrow>
          (if t = [] then Inr s
           else (case parseHistory js t of
                   Inl e \<Rightarrow> Inl e
                 | Inr h \<Rightarrow> Inr (s\<lparr> history := h \<rparr>))))"

text \<open>
  The effect run once after mounting. \<^verbatim>\<open>getItem\<close> returns \<^verbatim>\<open>null\<close> for an absent
  key and does not raise, so the statements of the \<^verbatim>\<open>try\<close> block that can raise are
  the two calls of \<^verbatim>\<open>JSON.parse\<close>. A state setter that was called before a later
  statement raised has taken effect; the \<^verbatim>\<open>catch\<close> block logs and clears the storage.
\<close>

definition loadSession :: "platform \<Rightarrow> ImageEditor \<times> storage
    \<Rightarrow> (ImageEditor \<times> storage) \<times> event list" where
  "loadSession js = (\<lambda>(s, st).
     (case restoreOriginal js (st ''originalImage'') s of
        Inl e \<Rightarrow> ((s, Map.empty), [ConsoleError ''Failed to load state from localStorage'' e])
      | Inr s1 \<Rightarrow>
          (case restoreHistory js (st ''editHistory'') (restoreEdited (st ''editedImage'') s1) of
             Inl e \<Rightarrow>
               ((restoreEdited (st ''editedImage'') s1, Map.empty),
                [ConsoleError ''Failed to load state from localStorage'' e])
           | Inr s3 \<Rightarrow> ((s3, st), []))))"

subsection \<open>The handlers\<close>

text \<open>
  \<^verbatim>\<open>handleImageChange\<close> from the point where the file has been read: \<open>newImage\<close> is the
  object assembled from the file's type and the data URL read. The setters come first;
  when \<^verbatim>\<open>setItem\<close> raises, the two \<^verbatim>\<open>removeItem\<close> calls after it are not reached. An
  exception that leaves a handler is not observed by the code, so the handlers return the
  state and the store only.
\<close>

definition handleImageChange :: "platform \<Rightarrow> ImageFile \<Rightarrow> ImageEditor \<times> storage
    \<Rightarrow> ImageEditor \<times> storage" where
  "handleImageChange js newImage = (\<lambda>(s, st).
     (s\<lparr> originalImage := Some newImage, editedImage := None, error := None, history := [] \<rparr>,
      (case setItem js st ''originalImage'' (stringifyImage js newImage) of
         (None, st1) \<Rightarrow> st1(''editedImage'' := None, ''editHistory'' := None)
       | (Some e, st1) \<Rightarrow> st1)))"

definition handleRemoveImage :: "ImageEditor \<times> storage \<Rightarrow> ImageEditor \<times> storage" where
  "handleRemoveImage = (\<lambda>(s, st).
     (s\<lparr> originalImage := None, editedImage := None, error := None, history := [] \<rparr>,
      st(''originalImage'' := None, ''editedImage'' := None, ''editHistory'' := None)))"

definition handleRevertToHistory :: "platform \<Rightarrow> string \<Rightarrow> ImageEditor \<times> storage
    \<Rightarrow> ImageEditor \<times> storage" where
  "handleRevertToHistory js imageDataUrl = (\<lambda>(s, st).
     (s\<lparr> editedImage := Some imageDataUrl \<rparr>,
      snd (setItem js st ''editedImage'' imageDataUrl)))"

definition handleClearHistory :: "ImageEditor \<times> storage \<Rightarrow> ImageEditor \<times> storage" where
  "handleClearHistory = (\<lambda>(s, st). (s\<lparr> history := [] \<rparr>, st(''editHistory'' := None)))"

text \<open>
  The format step of \<^verbatim>\<open>handleSubmit\<close>: the data URL of the edited image in the selected
  output format, with the image load and the canvas calls made on the way.
\<close>

definition finalImageDataUrl :: "browser \<Rightarrow> string \<Rightarrow> string \<Rightarrow> output_format
    \<Rightarrow> (error + string) \<times> canvas_cmd list" where
  "finalImageDataUrl br newImageBase64 newImageMimeType fmt =
     (if newImageMimeType \<noteq> mimeOf fmt
      then convertImageFormat br newImageBase64 newImageMimeType fmt
      else (Inr (''data:'' @ newImageMimeType @ '';base64,'' @ newImageBase64), []))"

text \<open>
  The two awaited calls of \<^verbatim>\<open>handleSubmit\<close>: the edit, then the format step on its result.
\<close>

definition editAndFormat :: "(content_request \<Rightarrow> thrown + part list) \<Rightarrow> browser
    \<Rightarrow> ImageFile \<Rightarrow> string \<Rightarrow> output_format \<Rightarrow> (error + string) \<times> event list" where
  "editAndFormat generateContent br original promptText fmt =
     (case editImageWithPrompt generateContent (base64 original) (mimeType original) promptText of
        (Inl e, ev) \<Rightarrow> (Inl e, ev)
      | (Inr (newImageBase64, newImageMimeType), ev) \<Rightarrow>
          (case finalImageDataUrl br newImageBase64 newImageMimeType fmt of
             (r, cmds) \<Rightarrow> (r, ev @ map Canvas cmds)))"

text \<open>
  The \<^verbatim>\<open>catch\<close> block of \<^verbatim>\<open>handleSubmit\<close>:
  \<^verbatim>\<open>err instanceof Error ? err.message : "An unknown error occurred. Please try again."\<close>
\<close>

definition caughtMessage :: "thrown \<Rightarrow> string" where
  "caughtMessage e =
     (case e of
        ErrorObj m \<Rightarrow> m
      | NonError _ \<Rightarrow> ''An unknown error occurred. Please try again.'')"

text \<open>
  The statements of \<^verbatim>\<open>handleSubmit\<close> after the awaited calls, with its \<^verbatim>\<open>catch\<close> and
  \<^verbatim>\<open>finally\<close>. \<open>hist\<close> is the \<^verbatim>\<open>history\<close> of the render in which the handler was
  invoked, which its closure holds. On success of the calls the two setters run, then the
  two \<^verbatim>\<open>setItem\<close> calls; a \<^verbatim>\<open>setItem\<close> that raises is caught like any other failure,
  after the setters have run and with the writes made before it in place.
\<close>

definition afterEdit :: "platform \<Rightarrow> string list \<Rightarrow> error + string \<Rightarrow> ImageEditor \<times> storage
    \<Rightarrow> (ImageEditor \<times> storage) \<times> event list" where
  "afterEdit js hist r = (\<lambda>(s, st).
     (case r of
        Inl err \<Rightarrow>
          ((s\<lparr> error := Some (message err), isLoading := False \<rparr>, st),
           [ConsoleError [] (ErrorObj (message err))])
      | Inr final \<Rightarrow>
          (case setItem js st ''editedImage'' final of
             (Some e, st1) \<Rightarrow>
               ((s\<lparr> editedImage := Some final, history := hist @ [final],
                    error := Some (caughtMessage e), isLoading := False \<rparr>, st1),
                [ConsoleError [] e])
           | (None, st1) \<Rightarrow>
               (case setItem js st1 ''editHistory'' (stringifyHistory js (hist @ [final])) of
                  (Some e, st2) \<Rightarrow>
                    ((s\<lparr> editedImage := Some final, history := hist @ [final],
                         error := Some (caughtMessage e), isLoading := False \<rparr>, st2),
                     [ConsoleError [] e])
                | (None, st2) \<Rightarrow>
                    ((s\<lparr> editedImage := Some final, history := hist @ [final],
                         isLoading := False \<rparr>, st2), [])))))"

text \<open>One run of \<^verbatim>\<open>handleSubmit\<close> from the click to the end of \<^verbatim>\<open>finally\<close>.\<close>

definition ImageEditor_handleSubmit :: "platform \<Rightarrow> (content_request \<Rightarrow> thrown + part list)
    \<Rightarrow> browser \<Rightarrow> ImageEditor \<times> storage \<Rightarrow> (ImageEditor \<times> storage) \<times> event list" where
  "ImageEditor_handleSubmit js generateContent br = (\<lambda>(s, st).
     (case originalImage s of
        None \<Rightarrow>
          ((s\<lparr> error := Some ''Please upload an image and provide an editing prompt.'' \<rparr>, st),
           [])
      | Some original \<Rightarrow>
          (if prompt s = []
           then ((s\<lparr> error :=
                      Some ''Please upload an image and provide an editing prompt.'' \<rparr>, st), [])
           else
             (case editAndFormat generateContent br original (prompt s) (outputFormat s) of
                (r, ev) \<Rightarrow>
                  (case afterEdit js (history s) r (s\<lparr> isLoading := True, error := None \<rparr>, st) of
                     (res, ev') \<Rightarrow> (res, ev @ ev'))))))"

subsection \<open>The mirror in storage\<close>

text \<open>
  The storage mirrors the session: each of the three keys holds the serialised value of
  its part of the state, and is absent when that part is absent or the history is empty.
\<close>

definition mirrors :: "platform \<Rightarrow> ImageEditor \<times> storage \<Rightarrow> bool" where
  "mirrors js = (\<lambda>(s, st).
     st ''originalImage'' = map_option (stringifyImage js) (originalImage s)
     \<and> st ''editedImage'' = editedImage s
     \<and> st ''editHistory'' =
         (if history s = [] then None else Some (stringifyHistory js (history s))))"

subsection \<open>The editor in the page: mounting, teardown, edits in flight\<close>

text \<open>
  \<^verbatim>\<open>App\<close> renders the editor only in image mode, and \<^verbatim>\<open>localStorage\<close> outlives it. An
  edit that has been started stays in flight until it settles, whatever happens to the
  editor that started it. When it settles, the statements after the awaited calls run
  with the values its closure holds: the setters act on the editor that started the edit,
  which has an effect only if that editor is still the mounted one, and the
  \<^verbatim>\<open>setItem\<close> calls act on the storage in any case. \<open>editorMounts\<close> counts the editors
  mounted so far and so identifies the mounted one. An edit in flight is recorded with the
  editor that started it and what its closure holds: the original image, the prompt, the
  output format and the history.
\<close>

record editor_page =
  editor :: "ImageEditor option"
  editorMounts :: nat
  localStorage :: storage
  editsInFlight :: "(nat \<times> ImageFile \<times> string \<times> output_format \<times> string list) list"

datatype editor_interaction =
    OpenEditor                \<comment> \<open>the user switches to image mode: mount, then the load effect\<close>
  | CloseEditor               \<comment> \<open>the user switches to video mode: teardown\<close>
  | ChooseFile ImageFile      \<comment> \<open>shown while there is no original image\<close>
  | ClickRemove               \<comment> \<open>shown while there is an original image\<close>
  | TypeEditPrompt string     \<comment> \<open>disabled without an original image or while loading\<close>
  | ChooseFormat output_format  \<comment> \<open>disabled while loading\<close>
  | ClickEdit                 \<comment> \<open>disabled without an original image or a prompt, or while loading\<close>
  | SettleEdit "content_request \<Rightarrow> thrown + part list" browser
      \<comment> \<open>the oldest edit in flight runs to its end against this gateway and browser\<close>
  | ClickRevert string        \<comment> \<open>a thumbnail of the history panel\<close>
  | ClickClear                \<comment> \<open>the button of the history panel\<close>

definition initialEditorPage :: "storage \<Rightarrow> editor_page" where
  "initialEditorPage st =
     \<lparr> editor = None, editorMounts = 0, localStorage = st, editsInFlight = [] \<rparr>"

text \<open>An interaction on a mounted editor that is a handler on its state and the storage.\<close>

definition onEditor :: "(ImageEditor \<Rightarrow> bool) \<Rightarrow> (ImageEditor \<times> storage \<Rightarrow> ImageEditor \<times> storage)
    \<Rightarrow> editor_page \<Rightarrow> editor_page" where
  "onEditor enabled handler p =
     (case editor p of
        None \<Rightarrow> p
      | Some s \<Rightarrow>
          (if enabled s
           then (case handler (s, localStorage p) of
                   (s', st') \<Rightarrow> p\<lparr> editor := Some s', localStorage := st' \<rparr>)
           else p))"

fun editorStep :: "platform \<Rightarrow> editor_page \<Rightarrow> editor_interaction \<Rightarrow> editor_page" where
  "editorStep js p OpenEditor =
     (case editor p of
        Some _ \<Rightarrow> p
      | None \<Rightarrow>
          (case fst (loadSession js (initialImageEditor, localStorage p)) of
             (s, st) \<Rightarrow>
               p\<lparr> editor := Some s, editorMounts := Suc (editorMounts p),
                  localStorage := st \<rparr>))"
| "editorStep js p CloseEditor = p\<lparr> editor := None \<rparr>"
| "editorStep js p (ChooseFile newImage) =
     onEditor (\<lambda>s. originalImage s = None) (handleImageChange js newImage) p"
| "editorStep js p ClickRemove =
     onEditor (\<lambda>s. originalImage s \<noteq> None) handleRemoveImage p"
| "editorStep js p (TypeEditPrompt t) =
     onEditor (\<lambda>s. originalImage s \<noteq> None \<and> \<not> isLoading s)
       (\<lambda>(s, st). (s\<lparr> prompt := t \<rparr>, st)) p"
| "editorStep js p (ChooseFormat f) =
     onEditor (\<lambda>s. \<not> isLoading s) (\<lambda>(s, st). (s\<lparr> outputFormat := f \<rparr>, st)) p"
| "editorStep js p ClickEdit =
     (case editor p of
        None \<Rightarrow> p
      | Some s \<Rightarrow>
          (case originalImage s of
             None \<Rightarrow> p
           | Some original \<Rightarrow>
               (if prompt s = [] \<or> isLoading s then p
                else p\<lparr> editor := Some (s\<lparr> isLoading := True, error := None \<rparr>),
                        editsInFlight := editsInFlight p @
                          [(editorMounts p, original, prompt s, outputFormat s,
                            history s)] \<rparr>)))"
| "editorStep js p (SettleEdit generateContent br) =
     (case editsInFlight p of
        [] \<Rightarrow> p
      | (owner, original, promptText, fmt, hist) # rest \<Rightarrow>
          (case editor p of
             None \<Rightarrow>
               p\<lparr> editsInFlight := rest,
                  localStorage :=
                    snd (fst (afterEdit js hist
                      (fst (editAndFormat generateContent br original promptText fmt))
                      (initialImageEditor, localStorage p))) \<rparr>
           | Some s \<Rightarrow>
               (if owner = editorMounts p
                then (case fst (afterEdit js hist
                        (fst (editAndFormat generateContent br original promptText fmt))
                        (s, localStorage p)) of
                        (s', st') \<Rightarrow>
                          p\<lparr> editor := Some s', editsInFlight := rest,
                             localStorage := st' \<rparr>)
                else p\<lparr> editsInFlight := rest,
                        localStorage :=
                          snd (fst (afterEdit js hist
                            (fst (editAndFormat generateContent br original promptText fmt))
                            (initialImageEditor, localStorage p))) \<rparr>)))"
| "editorStep js p (ClickRevert imageDataUrl) =
     onEditor (\<lambda>s. originalImage s \<noteq> None \<and> imageDataUrl \<in> set (history s))
       (handleRevertToHistory js imageDataUrl) p"
| "editorStep js p ClickClear =
     onEditor (\<lambda>s. originalImage s \<noteq> None \<and> history s \<noteq> []) handleClearHistory p"

definition editorSteps :: "platform \<Rightarrow> editor_page \<Rightarrow> editor_interaction list \<Rightarrow> editor_page" where
  "editorSteps js p xs = foldl (editorStep js) p xs"

text \<open>The storage mirrors the session of the mounted editor, if there is one.\<close>

definition pageMirrors :: "platform \<Rightarrow> editor_page \<Rightarrow> bool" where
  "pageMirrors js p =
     (case editor p of
        None \<Rightarrow> True
      | Some s \<Rightarrow> mirrors js (s, localStorage p))"

section \<open>Concrete scenarios\<close>

text \<open>Gateways, views and stores on which the theorems below are exercised.\<close>

definition videoAt :: "string \<Rightarrow> videos_response" where
  "videoAt u = \<lparr> generatedVideos = Some [\<lparr> gv_video = Some \<lparr> uri = Some u \<rparr> \<rparr>] \<rparr>"

text \<open>The message of the TypeError for a method call on \<^verbatim>\<open>undefined\<close>, as one engine words it.\<close>

definition includesOfUndefined :: string where
  "includesOfUndefined =
     ''Cannot read properties of undefined (reading '' @ [CHR 0x27] @ ''includes''
       @ [CHR 0x27] @ '')''"

text \<open>A job that is pending at submission and at the first query, and done at the second.\<close>

definition demoGateway :: gateway where
  "demoGateway =
     \<lparr> API_KEY = ''k1'',
       generateVideos = (\<lambda>_. Inr \<lparr> op_name = ''op/0'', op_done = False, response = None \<rparr>),
       getVideosOperation =
         [Inr \<lparr> op_name = ''op/1'', op_done = False, response = None \<rparr>,
          Inr \<lparr> op_name = ''op/2'', op_done = True,
                response = Some (videoAt ''https://host/v1?alt=media'') \<rparr>],
       fetch = (\<lambda>u. if u = ''https://host/v1?alt=media&key=k1''
                     then Inr \<lparr> ok = True, status = 200, blob = Inr ''mp4-bytes'' \<rparr>
                     else Inr \<lparr> ok = False, status = 404, blob = Inr [] \<rparr>),
       createObjectURL = (\<lambda>b. ''blob:'' @ b),
       typeErrorMessage = includesOfUndefined \<rparr>"

text \<open>A job that is done at the first query, with an empty list of generated videos.\<close>

definition noLinkGateway :: gateway where
  "noLinkGateway =
     \<lparr> API_KEY = ''k1'',
       generateVideos = (\<lambda>_. Inr \<lparr> op_name = ''op/0'', op_done = False, response = None \<rparr>),
       getVideosOperation =
         [Inr \<lparr> op_name = ''op/1'', op_done = True,
                response = Some \<lparr> generatedVideos = Some [] \<rparr> \<rparr>],
       fetch = (\<lambda>u. Inr \<lparr> ok = True, status = 200, blob = Inr ''mp4-bytes'' \<rparr>),
       createObjectURL = (\<lambda>b. ''blob:'' @ b),
       typeErrorMessage = includesOfUndefined \<rparr>"

text \<open>JSON texts, for values whose strings need no escaping.\<close>

definition quoted :: "string \<Rightarrow> string" where
  "quoted s = CHR 0x22 # s @ [CHR 0x22]"

fun commaSeparated :: "string list \<Rightarrow> string" where
  "commaSeparated [] = []"
| "commaSeparated [x] = x"
| "commaSeparated (x # y # ys) = x @ '','' @ commaSeparated (y # ys)"

definition imageText :: "ImageFile \<Rightarrow> string" where
  "imageText i =
     ''{'' @ quoted ''base64'' @ '':'' @ quoted (base64 i) @ '',''
       @ quoted ''mimeType'' @ '':'' @ quoted (mimeType i) @ '',''
       @ quoted ''dataURL'' @ '':'' @ quoted (dataURL i) @ ''}''"

definition historyText :: "string list \<Rightarrow> string" where
  "historyText h = ''['' @ commaSeparated (map quoted h) @ '']''"

text \<open>The body of an error reply of the gateway, as \<^verbatim>\<open>JSON.stringify\<close> writes it.\<close>

definition errorBody :: "string \<Rightarrow> string \<Rightarrow> string \<Rightarrow> string" where
  "errorBody code msg stat =
     ''{'' @ quoted ''error'' @ '':{'' @ quoted ''code'' @ '':'' @ code @ '',''
       @ quoted ''message'' @ '':'' @ quoted msg @ '',''
       @ quoted ''status'' @ '':'' @ quoted stat @ ''}}''"

text \<open>A gateway whose submission raises the given value.\<close>

definition raising :: "thrown \<Rightarrow> gateway" where
  "raising t =
     \<lparr> API_KEY = ''k1'', generateVideos = (\<lambda>_. Inl t), getVideosOperation = [],
       fetch = (\<lambda>_. Inl (ErrorObj ''Failed to fetch'')),
       createObjectURL = (\<lambda>b. ''blob:'' @ b),
       typeErrorMessage = includesOfUndefined \<rparr>"

text \<open>A page whose view, with a key selected and a prompt typed, has one call in flight.\<close>

definition loadingPage :: page where
  "loadingPage = interactions initialPage [Mount, SelectKey, TypePrompt ''a cat'', ClickGenerate]"

definition demoImage :: ImageFile where
  "demoImage =
     \<lparr> base64 = ''AAAA'', mimeType = ''image/png'',
       dataURL = ''data:image/png;base64,AAAA'' \<rparr>"

text \<open>
  A stand-in for the platform: it writes the JSON text of an image object and of a list of
  strings, parses the texts of the demo values and raises on every other text, and stores
  every item.
\<close>

definition demoPlatform :: platform where
  "demoPlatform =
     \<lparr> parseImage = (\<lambda>t. if t = imageText demoImage then Inr demoImage
                          else Inl (ErrorObj ''SyntaxError'')),
       parseHistory = (\<lambda>t. if t = historyText [''data:image/png;base64,BBBB'',
                                                   ''data:image/png;base64,DDDD'']
                            then Inr [''data:image/png;base64,BBBB'',
                                      ''data:image/png;base64,DDDD'']
                            else Inl (ErrorObj ''SyntaxError'')),
       stringifyImage = imageText,
       stringifyHistory = historyText,
       quotaError = (\<lambda>st k v. None) \<rparr>"

text \<open>The same platform with a storage that takes no item of more than 80 characters.\<close>

definition fullStorage :: platform where
  "fullStorage =
     demoPlatform\<lparr> quotaError := (\<lambda>st k v. if 80 < length v
                                   then Some (ErrorObj ''The quota has been exceeded.'')
                                   else None) \<rparr>"

definition brokenOriginal :: storage where
  "brokenOriginal =
     [''originalImage'' \<mapsto> ''not json'',
      ''editedImage'' \<mapsto> ''data:image/png;base64,BBBB'',
      ''editHistory'' \<mapsto> historyText [''data:image/png;base64,BBBB'',
                                       ''data:image/png;base64,DDDD'']]"

definition brokenHistory :: storage where
  "brokenHistory =
     [''originalImage'' \<mapsto> imageText demoImage,
      ''editedImage'' \<mapsto> ''data:image/png;base64,BBBB'',
      ''editHistory'' \<mapsto> ''not json'']"

text \<open>
  A session with two edits made, the second one current, and a prompt typed for a third;
  and the store that mirrors it under \<open>demoPlatform\<close>.
\<close>

definition demoStore :: storage where
  "demoStore =
     [''originalImage'' \<mapsto> imageText demoImage,
      ''editedImage'' \<mapsto> ''data:image/png;base64,DDDD'',
      ''editHistory'' \<mapsto> historyText [''data:image/png;base64,BBBB'',
                                       ''data:image/png;base64,DDDD'']]"

definition demoSession :: "ImageEditor \<times> storage" where
  "demoSession =
     (initialImageEditor\<lparr> originalImage := Some demoImage,
        editedImage := Some ''data:image/png;base64,DDDD'',
        ImageEditor.prompt := ''add a hat'',
        history := [''data:image/png;base64,BBBB'', ''data:image/png;base64,DDDD''] \<rparr>,
      demoStore)"

text \<open>An edit reply with a text part followed by a PNG image part.\<close>

definition demoEdit :: "content_request \<Rightarrow> thrown + part list" where
  "demoEdit req = Inr [TextPart ''here it is'', InlineData ''CCCC'' ''image/png'']"

text \<open>
  A two-pixel image, one pixel fully transparent and one half transparent, and a browser
  that decodes one data URL to it and whose encoder writes \<open>o\<close> for an opaque pixel and
  \<open>t\<close> for any other.
\<close>

definition demoSource :: raster where
  "demoSource =
     \<lparr> width = 2, height = 1,
       pixels = [\<lparr> red = 10, green = 20, blue = 30, alpha = 0 \<rparr>,
                 \<lparr> red = 200, green = 100, blue = 50, alpha = 128 \<rparr>] \<rparr>"

definition demoBrowser :: browser where
  "demoBrowser =
     \<lparr> decodeImage = (\<lambda>u. if u = ''data:image/png;base64,CCCC'' then Some demoSource
                           else None),
       getContext2d = True,
       encodeImage = (\<lambda>r t q. ''data:'' @ t @ '';base64,''
                        @ map (\<lambda>p. if alpha p = 255 then CHR ''o'' else CHR ''t'') (pixels r)) \<rparr>"

text \<open>A job that is done at submission; every blob gets the object URL \<open>u\<close>.\<close>

definition readyGateway :: "string \<Rightarrow> gateway" where
  "readyGateway u =
     \<lparr> API_KEY = ''k1'',
       generateVideos = (\<lambda>_. Inr \<lparr> op_name = ''op/0'', op_done = True,
                                    response = Some (videoAt ''https://host/v1?alt=media'') \<rparr>),
       getVideosOperation = [],
       fetch = (\<lambda>_. Inr \<lparr> ok = True, status = 200, blob = Inr ''mp4-bytes'' \<rparr>),
       createObjectURL = (\<lambda>_. u),
       typeErrorMessage = includesOfUndefined \<rparr>"

section \<open>The platform functions\<close>

text \<open>\<open>str_includes\<close> is the substring test, and \<open>decimal\<close> writes digits.\<close>

lemma str_includes_iff: "str_includes s n \<longleftrightarrow> (\<exists>p q. s = p @ n @ q)"
proof (induction s)
  case Nil
  then show ?case by auto
next
  case (Cons c cs)
  have "(\<exists>p q. c # cs = p @ n @ q) \<longleftrightarrow> prefix n (c # cs) \<or> (\<exists>p q. cs = p @ n @ q)"
  proof
    assume "\<exists>p q. c # cs = p @ n @ q"
    then obtain p q where pq: "c # cs = p @ n @ q" by blast
    show "prefix n (c # cs) \<or> (\<exists>p q. cs = p @ n @ q)"
    proof (cases p)
      case Nil
      with pq show ?thesis by (auto simp: prefix_def)
    next
      case (Cons a p')
      with pq have "cs = p' @ n @ q" by simp
      then show ?thesis by blast
    qed
  next
    assume "prefix n (c # cs) \<or> (\<exists>p q. cs = p @ n @ q)"
    then show "\<exists>p q. c # cs = p @ n @ q"
    proof
      assume "prefix n (c # cs)"
      then obtain q where "c # cs = n @ q" by (auto simp: prefix_def)
      then have "c # cs = [] @ n @ q" by simp
      then show ?thesis by blast
    next
      assume "\<exists>p q. cs = p @ n @ q"
      then obtain p q where "cs = p @ n @ q" by blast
      then have "c # cs = (c # p) @ n @ q" by simp
      then show ?thesis by blast
    qed
  qed
  with Cons.IH show ?case by simp
qed

lemma decimal_404: "decimal 404 = ''404''"
  by code_simp

section \<open>The job poller\<close>

text \<open>
  The loop on a sequence of statuses of which the last is the first to report done: it
  returns the last, after one pause and one query per earlier status.
\<close>

lemma awaitDone_statuses:
  "sts \<noteq> [] \<Longrightarrow> \<forall>opn \<in> set (butlast sts). \<not> op_done opn \<Longrightarrow> op_done (last sts) \<Longrightarrow>
   awaitDone (hd sts) (map Inr (tl sts) @ rest) =
     Some (Inr (last sts),
           concat (map (\<lambda>opn. [Sleep 10000, GetVideosOperation opn]) (butlast sts)))"
proof (induction sts)
  case Nil
  then show ?case by simp
next
  case (Cons a sts)
  show ?case
  proof (cases sts)
    case Nil
    with Cons.prems show ?thesis by (cases rest) simp_all
  next
    case (Cons b sts')
    with Cons.prems Cons.IH show ?thesis by simp
  qed
qed

text \<open>
  C1. When the handle returned by the submission is not done, the first status query
  returns a handle that is not done and the second one a handle that is done and carries
  a result location, the poller pauses exactly twice, for 10000 ms each time, each pause
  followed by one status query made with the handle current at that moment (first the
  submitted one, then the refreshed one), and no other pause or query happens. It then
  fetches the location of the third status (with the key appended) and, the download
  succeeding, resolves with the object URL made for the bytes fetched from there.
\<close>

theorem poller_two_suspensions:
  assumes gen: "generateVideos gw (videoRequest p ar img) = Inr op0"
    and polls: "getVideosOperation gw = Inr op1 # Inr op2 # rest"
    and pending: "\<not> op_done op0" "\<not> op_done op1"
    and finished: "op_done op2"
    and link: "downloadLink op2 = Some link" "link \<noteq> []"
    and download: "fetch gw (link @ ''&key='' @ API_KEY gw) = Inr resp" "ok resp"
      "blob resp = Inr bytes"
  shows "generateVideoWithPrompt gw p ar img =
    Some (Inr (createObjectURL gw bytes),
      [GenerateVideos (videoRequest p ar img),
       Sleep 10000, GetVideosOperation op0,
       Sleep 10000, GetVideosOperation op1,
       Fetch (link @ ''&key='' @ API_KEY gw), ReadBlob,
       CreateObjectURL bytes (createObjectURL gw bytes)])"
proof -
  have "awaitDone op0 (getVideosOperation gw) =
      Some (Inr op2, [Sleep 10000, GetVideosOperation op0, Sleep 10000, GetVideosOperation op1])"
    using polls pending finished by (cases rest) simp_all
  moreover have "retrieve gw op2 =
      (Inr (createObjectURL gw bytes),
       [Fetch (link @ ''&key='' @ API_KEY gw), ReadBlob,
        CreateObjectURL bytes (createObjectURL gw bytes)])"
    using link download by (simp add: retrieve_def)
  ultimately show ?thesis
    using gen by (simp add: generateVideoWithPrompt_def tryBlock_def)
qed

theorem poller_two_suspensions_witness:
  "generateVideoWithPrompt demoGateway ''a cat'' Landscape_16_9 None =
    Some (Inr ''blob:mp4-bytes'',
      [GenerateVideos (videoRequest ''a cat'' Landscape_16_9 None),
       Sleep 10000,
       GetVideosOperation \<lparr> op_name = ''op/0'', op_done = False, response = None \<rparr>,
       Sleep 10000,
       GetVideosOperation \<lparr> op_name = ''op/1'', op_done = False, response = None \<rparr>,
       Fetch ''https://host/v1?alt=media&key=k1'', ReadBlob,
       CreateObjectURL ''mp4-bytes'' ''blob:mp4-bytes''])"
proof -
  let ?op0 = "\<lparr> op_name = ''op/0'', op_done = False, response = None \<rparr>"
  let ?op1 = "\<lparr> op_name = ''op/1'', op_done = False, response = None \<rparr>"
  let ?op2 = "\<lparr> op_name = ''op/2'', op_done = True,
                response = Some (videoAt ''https://host/v1?alt=media'') \<rparr>"
  let ?resp = "\<lparr> ok = True, status = 200, blob = Inr ''mp4-bytes'' \<rparr>"
  have 1: "generateVideos demoGateway (videoRequest ''a cat'' Landscape_16_9 None) = Inr ?op0"
    by (simp add: demoGateway_def)
  have 2: "getVideosOperation demoGateway = Inr ?op1 # Inr ?op2 # []"
    by (simp add: demoGateway_def)
  have 3: "\<not> op_done ?op0" "\<not> op_done ?op1" "op_done ?op2"
    by simp_all
  have 4: "downloadLink ?op2 = Some ''https://host/v1?alt=media''"
    "''https://host/v1?alt=media'' \<noteq> []"
    by (simp_all add: downloadLink_def videoAt_def)
  have 5: "fetch demoGateway (''https://host/v1?alt=media'' @ ''&key='' @ API_KEY demoGateway)
             = Inr ?resp" "ok ?resp" "blob ?resp = Inr ''mp4-bytes''"
    by (simp_all add: demoGateway_def)
  show ?thesis
    using poller_two_suspensions [OF 1 2 3 4 5] by (simp add: demoGateway_def)
qed

text \<open>After the loop: a handle without a usable link raises, and nothing is fetched.\<close>

lemma retrieve_no_link:
  "\<not> truthy (downloadLink opn) \<Longrightarrow>
   retrieve gw opn =
     (Inl (ErrorObj ''Video generation succeeded but no download link was found.''), [])"
  by (simp add: retrieve_def truthy_def split: option.splits)

lemma catchBlock_no_link:
  "catchBlock te (ErrorObj ''Video generation succeeded but no download link was found.'') =
   Error ''Failed to generate video: Video generation succeeded but no download link was found.''"
  by (simp add: catchBlock_def errorContent_def)

text \<open>
  C2. Whenever the statuses of a job (the submitted handle followed by the replies to the
  status queries) are not done up to a last one that reports done, and that last status
  carries no result location (any link of the optional chain to the first generated
  video's URI is absent, or the URI is empty), the call is rejected with the error
  "no download link was found" (the spec's ResultMissing, as the \<^verbatim>\<open>catch\<close> block hands
  it on), and the run contains no fetch and creates no object URL.
\<close>

theorem result_missing_no_download:
  assumes gen: "generateVideos gw (videoRequest p ar img) = Inr (hd sts)"
    and polls: "getVideosOperation gw = map Inr (tl sts) @ rest"
    and sts: "sts \<noteq> []" "\<forall>opn \<in> set (butlast sts). \<not> op_done opn" "op_done (last sts)"
    and nolink: "\<not> truthy (downloadLink (last sts))"
  shows "\<exists>tr. generateVideoWithPrompt gw p ar img =
           Some (Inl (Error ''Failed to generate video: Video generation succeeded but no download link was found.''), tr)
         \<and> (\<forall>u. Fetch u \<notin> set tr) \<and> (\<forall>b u. CreateObjectURL b u \<notin> set tr)"
proof -
  let ?polling = "concat (map (\<lambda>opn. [Sleep 10000, GetVideosOperation opn]) (butlast sts))"
  have loop: "awaitDone (hd sts) (getVideosOperation gw) = Some (Inr (last sts), ?polling)"
    using awaitDone_statuses [OF sts] polls by simp
  have "generateVideoWithPrompt gw p ar img =
      Some (Inl (Error ''Failed to generate video: Video generation succeeded but no download link was found.''),
            GenerateVideos (videoRequest p ar img) # ?polling @
            [ConsoleError ''Error generating video with Veo:''
               (ErrorObj ''Video generation succeeded but no download link was found.'')])"
    using gen loop retrieve_no_link [OF nolink, of gw] catchBlock_no_link
    by (simp add: generateVideoWithPrompt_def tryBlock_def)
  moreover have "\<forall>u. Fetch u \<notin> set ?polling" "\<forall>b u. CreateObjectURL b u \<notin> set ?polling"
    by auto
  ultimately show ?thesis by auto
qed

theorem result_missing_no_download_witness:
  "\<exists>tr. generateVideoWithPrompt noLinkGateway ''a cat'' Portrait_9_16 None =
           Some (Inl (Error ''Failed to generate video: Video generation succeeded but no download link was found.''), tr)
         \<and> (\<forall>u. Fetch u \<notin> set tr) \<and> (\<forall>b u. CreateObjectURL b u \<notin> set tr)"
proof -
  let ?sts = "[\<lparr> op_name = ''op/0'', op_done = False, response = None \<rparr>,
               \<lparr> op_name = ''op/1'', op_done = True,
                  response = Some \<lparr> generatedVideos = Some [] \<rparr> \<rparr>]"
  have 1: "generateVideos noLinkGateway (videoRequest ''a cat'' Portrait_9_16 None)
             = Inr (hd ?sts)"
    by (simp add: noLinkGateway_def)
  have 2: "getVideosOperation noLinkGateway = map Inr (tl ?sts) @ []"
    by (simp add: noLinkGateway_def)
  have 3: "?sts \<noteq> []" "\<forall>opn \<in> set (butlast ?sts). \<not> op_done opn" "op_done (last ?sts)"
    by simp_all
  have 4: "\<not> truthy (downloadLink (last ?sts))"
    by (simp add: truthy_def downloadLink_def)
  show ?thesis
    by (rule result_missing_no_download [OF 1 2 3 4])
qed

section \<open>Classification of errors raised during video generation\<close>

text \<open>
  C3, as the code has it. A call is in flight whose view is still the mounted one, and
  the \<^verbatim>\<open>try\<close> block of the service raises a value that has a text: the message of an
  Error object, or what \<^verbatim>\<open>JSON.stringify\<close> (or \<^verbatim>\<open>String\<close>) yields for another value.
  Then the call is rejected with an Error, and when it settles the view shows the message
  of that Error. If the text contains "Requested entity was not found.", the message is
  the dedicated invalid-key message and the key-selected flag is reset to false.
  Otherwise, if the value is an Error object with message \<open>m\<close>, the message is
  "Failed to generate video: " followed by \<open>m\<close>, and the flag is reset exactly when \<open>m\<close>
  contains "API key not found"; and if the value is not an Error object, the message is
  the fixed text "An unexpected error occurred while generating the video." and the flag
  is left as it is.
\<close>

theorem provider_error_classified:
  assumes mounted: "view p = Some s"
    and call: "inFlight p = (mounts p, pr, ar, im) # rest"
    and raised: "tryBlock gw pr ar im = Some (Inl t, tr)"
    and content: "errorContent t = Some c"
  shows "\<exists>msg s'.
       generateVideoWithPrompt gw pr ar im =
         Some (Inl (Error msg), tr @ [ConsoleError ''Error generating video with Veo:'' t])
     \<and> view (interact p (Settle gw)) = Some s'
     \<and> VideoGenerator.error s' = Some msg
     \<and> (if str_includes c ''Requested entity was not found.''
         then msg = ''API key not found or invalid. Please select a valid API key and try again.''
              \<and> \<not> isKeySelected s'
         else (case t of
                 ErrorObj m \<Rightarrow>
                   msg = ''Failed to generate video: '' @ m
                   \<and> (isKeySelected s' \<longleftrightarrow>
                        isKeySelected s \<and> \<not> str_includes m ''API key not found'')
               | NonError j \<Rightarrow>
                   msg = ''An unexpected error occurred while generating the video.''
                   \<and> (isKeySelected s' \<longleftrightarrow> isKeySelected s)))"
proof -
  let ?e = "catchBlock (typeErrorMessage gw) t"
  have run: "generateVideoWithPrompt gw pr ar im =
      Some (Inl ?e, tr @ [ConsoleError ''Error generating video with Veo:'' t])"
    using raised by (simp add: generateVideoWithPrompt_def)
  have settled: "view (interact p (Settle gw)) = Some (afterAwait (Inl ?e) s)"
    using mounted call run by simp
  show ?thesis
  proof (cases "str_includes c ''Requested entity was not found.''")
    case True
    then have "?e = Error
        ''API key not found or invalid. Please select a valid API key and try again.''"
      using content by (simp add: catchBlock_def)
    with True run settled show ?thesis
      by (simp add: afterAwait_def)
  next
    case False
    show ?thesis
    proof (cases t)
      case (ErrorObj m)
      with False content have "?e = Error (''Failed to generate video: '' @ m)"
        by (simp add: catchBlock_def errorContent_def)
      with False ErrorObj run settled show ?thesis
        by (simp add: afterAwait_def)
    next
      case (NonError j)
      with False content
      have "?e = Error ''An unexpected error occurred while generating the video.''"
        by (simp add: catchBlock_def errorContent_def)
      with False NonError run settled show ?thesis
        by (simp add: afterAwait_def)
    qed
  qed
qed

theorem provider_error_classified_witness:
  "(\<exists>s'. view (interact loadingPage (Settle (raising
        (NonError (Some (errorBody ''404'' ''Requested entity was not found.''
           ''NOT_FOUND'')))))) = Some s'
     \<and> VideoGenerator.error s' =
          Some ''API key not found or invalid. Please select a valid API key and try again.''
     \<and> \<not> isKeySelected s')
   \<and> (\<exists>s'. view (interact loadingPage (Settle (raising (ErrorObj ''Quota exceeded.''))))
        = Some s'
     \<and> VideoGenerator.error s' = Some ''Failed to generate video: Quota exceeded.''
     \<and> isKeySelected s')
   \<and> (\<exists>s'. view (interact loadingPage (Settle (raising
        (NonError (Some (errorBody ''429'' ''Quota exceeded.'' ''RESOURCE_EXHAUSTED''))))))
        = Some s'
     \<and> VideoGenerator.error s' =
          Some ''An unexpected error occurred while generating the video.''
     \<and> isKeySelected s')"
proof -
  let ?s = "initialVideoGenerator\<lparr> isKeySelected := True, VideoGenerator.prompt := ''a cat'',
      VideoGenerator.isLoading := True, VideoGenerator.error := None, videoUrl := None,
      loadingMessage := ''Initiating video generation... this may take a few minutes.'' \<rparr>"
  have page: "view loadingPage = Some ?s"
    "inFlight loadingPage = (mounts loadingPage, ''a cat'', Landscape_16_9, None) # []"
    by (simp_all add: loadingPage_def interactions_def initialPage_def initialVideoGenerator_def
        submitBlocked_def beforeAwait_def serviceArgument_def)
  have sel: "isKeySelected ?s"
    by simp
  have raised: "tryBlock (raising t) ''a cat'' Landscape_16_9 None
           = Some (Inl t, [GenerateVideos (videoRequest ''a cat'' Landscape_16_9 None)])" for t
    by (simp add: tryBlock_def raising_def)
  have 1: "errorContent (NonError (Some (errorBody ''404'' ''Requested entity was not found.''
         ''NOT_FOUND''))) = Some (errorBody ''404'' ''Requested entity was not found.''
         ''NOT_FOUND'')"
    "str_includes (errorBody ''404'' ''Requested entity was not found.'' ''NOT_FOUND'')
       ''Requested entity was not found.''"
    by (simp_all add: errorContent_def errorBody_def quoted_def)
  have 2: "errorContent (ErrorObj ''Quota exceeded.'') = Some ''Quota exceeded.''"
    "\<not> str_includes ''Quota exceeded.'' ''Requested entity was not found.''"
    "\<not> str_includes ''Quota exceeded.'' ''API key not found''"
    by (simp_all add: errorContent_def)
  have 3: "errorContent (NonError (Some (errorBody ''429'' ''Quota exceeded.''
         ''RESOURCE_EXHAUSTED''))) = Some (errorBody ''429'' ''Quota exceeded.''
         ''RESOURCE_EXHAUSTED'')"
    "\<not> str_includes (errorBody ''429'' ''Quota exceeded.'' ''RESOURCE_EXHAUSTED'')
       ''Requested entity was not found.''"
    by (simp_all add: errorContent_def errorBody_def quoted_def)
  show ?thesis
    using provider_error_classified [OF page raised 1(1)]
      provider_error_classified [OF page raised 2(1)]
      provider_error_classified [OF page raised 3(1)]
      1(2) 2(2,3) 3(2) sel
    by auto
qed

text \<open>
  The claim as the spec words it fails twice. A raised value that is not an Error object
  and does not carry the signature (here the body of a quota error) is shown as the fixed
  text, which does not carry the provider's message; and an Error whose message contains
  "API key not found" without the signature resets the flag.
\<close>

theorem provider_error_claim_counterexample:
  "errorContent (NonError (Some (errorBody ''429'' ''Quota exceeded.'' ''RESOURCE_EXHAUSTED'')))
     = Some (errorBody ''429'' ''Quota exceeded.'' ''RESOURCE_EXHAUSTED'')
   \<and> \<not> str_includes (errorBody ''429'' ''Quota exceeded.'' ''RESOURCE_EXHAUSTED'')
         ''Requested entity was not found.''
   \<and> map_option VideoGenerator.error
        (view (interact loadingPage (Settle (raising
           (NonError (Some (errorBody ''429'' ''Quota exceeded.'' ''RESOURCE_EXHAUSTED'')))))))
       = Some (Some ''An unexpected error occurred while generating the video.'')
   \<and> \<not> str_includes ''An unexpected error occurred while generating the video.''
         ''Quota exceeded.''
   \<and> errorContent (ErrorObj ''API key not found'') = Some ''API key not found''
   \<and> \<not> str_includes ''API key not found'' ''Requested entity was not found.''
   \<and> map_option isKeySelected (view loadingPage) = Some True
   \<and> map_option isKeySelected
        (view (interact loadingPage (Settle (raising (ErrorObj ''API key not found'')))))
       = Some False"
  by (simp add: loadingPage_def interactions_def initialPage_def initialVideoGenerator_def
      submitBlocked_def beforeAwait_def serviceArgument_def errorContent_def afterAwait_def
      generateVideoWithPrompt_def tryBlock_def raising_def catchBlock_def errorBody_def
      quoted_def)

text \<open>
  Two cases that the statement above leaves out. A raised value for which
  \<^verbatim>\<open>JSON.stringify\<close> returns \<^verbatim>\<open>undefined\<close> has no text: the \<^verbatim>\<open>catch\<close> block fails on
  \<^verbatim>\<open>errorContent.includes\<close>, and the view shows the message of that TypeError. And when
  the view that started the call has been torn down before the call settles, the rejection
  reaches no view: a view mounted in between keeps its flag and shows nothing.
\<close>

lemma raised_without_text:
  assumes "view p = Some s"
    and "inFlight p = (mounts p, pr, ar, im) # rest"
    and "tryBlock gw pr ar im = Some (Inl (NonError None), tr)"
  shows "generateVideoWithPrompt gw pr ar im =
           Some (Inl (Error (typeErrorMessage gw)),
                 tr @ [ConsoleError ''Error generating video with Veo:'' (NonError None)])
     \<and> map_option VideoGenerator.error (view (interact p (Settle gw)))
         = Some (Some (typeErrorMessage gw))"
  using assms
  by (simp add: generateVideoWithPrompt_def catchBlock_def errorContent_def afterAwait_def)

lemma raised_without_text_example:
  "map_option VideoGenerator.error
     (view (interact loadingPage (Settle (raising (NonError None)))))
   = Some (Some includesOfUndefined)"
  by (simp add: loadingPage_def interactions_def initialPage_def initialVideoGenerator_def
      submitBlocked_def beforeAwait_def serviceArgument_def errorContent_def afterAwait_def
      generateVideoWithPrompt_def tryBlock_def raising_def catchBlock_def)

lemma rejection_after_teardown:
  "map_option isKeySelected (view (interactions initialPage
     [Mount, SelectKey, TypePrompt ''a cat'', ClickGenerate, Unmount, Mount, SelectKey,
      Settle (raising (ErrorObj ''Requested entity was not found.''))])) = Some True
   \<and> map_option VideoGenerator.error (view (interactions initialPage
     [Mount, SelectKey, TypePrompt ''a cat'', ClickGenerate, Unmount, Mount, SelectKey,
      Settle (raising (ErrorObj ''Requested entity was not found.''))])) = Some None"
  by (simp add: interactions_def initialPage_def initialVideoGenerator_def submitBlocked_def
      beforeAwait_def releaseVideoUrl_def serviceArgument_def errorContent_def
      generateVideoWithPrompt_def tryBlock_def raising_def catchBlock_def)

section \<open>Loading a corrupt store\<close>

text \<open>When the guarded statements of the load raise, and what they leave untouched.\<close>

lemma restoreOriginal_raises:
  "restoreOriginal js v s = Inl e \<longleftrightarrow> (\<exists>a. v = Some a \<and> a \<noteq> [] \<and> parseImage js a = Inl e)"
  by (auto simp: restoreOriginal_def split: option.splits sum.splits)

lemma restoreOriginal_returns:
  "restoreOriginal js v s = Inr s1 \<Longrightarrow>
   history s1 = history s \<and> editedImage s1 = editedImage s
   \<and> (originalImage s1 = originalImage s
        \<or> (\<exists>a img. v = Some a \<and> parseImage js a = Inr img \<and> originalImage s1 = Some img))"
  by (auto simp: restoreOriginal_def split: option.splits sum.splits if_splits)

lemma restoreHistory_raises:
  "restoreHistory js v s = Inl e \<longleftrightarrow> (\<exists>h. v = Some h \<and> h \<noteq> [] \<and> parseHistory js h = Inl e)"
  by (auto simp: restoreHistory_def split: option.splits sum.splits)

lemma history_restoreEdited: "history (restoreEdited v s) = history s"
  by (simp add: restoreEdited_def split: option.splits)

text \<open>
  What the load does when \<^verbatim>\<open>JSON.parse\<close> raises. When it raises on the entry under
  \<^verbatim>\<open>originalImage\<close>, or the original entry is absent, empty or parseable and it raises
  on the entry under \<^verbatim>\<open>editHistory\<close>, the load returns normally with the storage
  cleared and exactly one line logged, and the history in memory is unchanged. In the
  first case the whole state is untouched (empty at startup). In the second case the state
  keeps what was set before the failure: the original image and the edited image read from
  the store.
\<close>

lemma load_parse_failure:
  assumes "(\<exists>a. st ''originalImage'' = Some a \<and> a \<noteq> [] \<and> parseImage js a = Inl e)
     \<or> (restoreOriginal js (st ''originalImage'') s = Inr s1
        \<and> (\<exists>h. st ''editHistory'' = Some h \<and> h \<noteq> [] \<and> parseHistory js h = Inl e))"
  shows "\<exists>s'. loadSession js (s, st) =
            ((s', Map.empty), [ConsoleError ''Failed to load state from localStorage'' e])
     \<and> history s' = history s
     \<and> ((\<exists>a. st ''originalImage'' = Some a \<and> a \<noteq> [] \<and> parseImage js a = Inl e) \<longrightarrow> s' = s)
     \<and> (restoreOriginal js (st ''originalImage'') s = Inr s1 \<longrightarrow>
          s' = restoreEdited (st ''editedImage'') s1)"
  using assms
proof
  assume "\<exists>a. st ''originalImage'' = Some a \<and> a \<noteq> [] \<and> parseImage js a = Inl e"
  then have raised: "restoreOriginal js (st ''originalImage'') s = Inl e"
    by (simp add: restoreOriginal_raises)
  then have "loadSession js (s, st) =
      ((s, Map.empty), [ConsoleError ''Failed to load state from localStorage'' e])"
    by (simp add: loadSession_def)
  with raised show ?thesis by simp
next
  assume a: "restoreOriginal js (st ''originalImage'') s = Inr s1
        \<and> (\<exists>h. st ''editHistory'' = Some h \<and> h \<noteq> [] \<and> parseHistory js h = Inl e)"
  let ?s2 = "restoreEdited (st ''editedImage'') s1"
  from a have raised: "restoreHistory js (st ''editHistory'') ?s2 = Inl e"
    by (simp add: restoreHistory_raises)
  with a have run: "loadSession js (s, st) =
      ((?s2, Map.empty), [ConsoleError ''Failed to load state from localStorage'' e])"
    by (simp add: loadSession_def)
  have hist: "history ?s2 = history s"
    using a restoreOriginal_returns [of js "st ''originalImage''" s s1]
    by (simp add: history_restoreEdited)
  have no: "\<not> (\<exists>a. st ''originalImage'' = Some a \<and> a \<noteq> [] \<and> parseImage js a = Inl e)"
    using a restoreOriginal_raises [of js "st ''originalImage''" s e] by simp
  from run hist no show ?thesis by auto
qed

text \<open>With unparseable text under \<^verbatim>\<open>originalImage\<close> the session stays empty.\<close>

lemma load_broken_original:
  "loadSession demoPlatform (initialImageEditor, brokenOriginal) =
     ((initialImageEditor, Map.empty),
      [ConsoleError ''Failed to load state from localStorage'' (ErrorObj ''SyntaxError'')])"
  by (simp add: loadSession_def restoreOriginal_def brokenOriginal_def demoPlatform_def
      imageText_def quoted_def)

text \<open>
  C4. The claim is that a load in which reading or parsing any of the three keys raises
  clears the store, logs, raises nothing and leaves the session in memory empty rather
  than partial. The first three hold of the code; the last does not. With a parseable
  original image, an edited image and unparseable text under \<^verbatim>\<open>editHistory\<close> in the
  store, the setters of the original and of the edited image have run when
  \<^verbatim>\<open>JSON.parse\<close> raises on the history, and the \<^verbatim>\<open>catch\<close> block does not undo them:
  the editor shows the original and the edited image over a store that has been cleared,
  so the session is partial and the store no longer mirrors it.
\<close>

theorem load_partial_session:
  "brokenHistory ''editHistory'' = Some ''not json''
   \<and> parseHistory demoPlatform ''not json'' = Inl (ErrorObj ''SyntaxError'')
   \<and> loadSession demoPlatform (initialImageEditor, brokenHistory) =
       ((initialImageEditor\<lparr> originalImage := Some demoImage,
           editedImage := Some ''data:image/png;base64,BBBB'' \<rparr>, Map.empty),
        [ConsoleError ''Failed to load state from localStorage'' (ErrorObj ''SyntaxError'')])
   \<and> initialImageEditor\<lparr> originalImage := Some demoImage,
        editedImage := Some ''data:image/png;base64,BBBB'' \<rparr> \<noteq> initialImageEditor
   \<and> \<not> mirrors demoPlatform (fst (loadSession demoPlatform (initialImageEditor, brokenHistory)))"
proof -
  have store: "brokenHistory ''editHistory'' = Some ''not json''"
    by (simp add: brokenHistory_def)
  have parse: "parseHistory demoPlatform ''not json'' = Inl (ErrorObj ''SyntaxError'')"
    by (simp add: demoPlatform_def historyText_def quoted_def)
  have original: "restoreOriginal demoPlatform (brokenHistory ''originalImage'') initialImageEditor
      = Inr (initialImageEditor\<lparr> originalImage := Some demoImage \<rparr>)"
    by (simp add: restoreOriginal_def brokenHistory_def demoPlatform_def imageText_def quoted_def)
  have edited: "restoreEdited (brokenHistory ''editedImage'')
        (initialImageEditor\<lparr> originalImage := Some demoImage \<rparr>)
      = initialImageEditor\<lparr> originalImage := Some demoImage,
          editedImage := Some ''data:image/png;base64,BBBB'' \<rparr>"
    by (simp add: restoreEdited_def brokenHistory_def)
  have hist: "restoreHistory demoPlatform (brokenHistory ''editHistory'')
        (initialImageEditor\<lparr> originalImage := Some demoImage,
           editedImage := Some ''data:image/png;base64,BBBB'' \<rparr>)
      = Inl (ErrorObj ''SyntaxError'')"
    using store parse by (simp add: restoreHistory_def)
  have run: "loadSession demoPlatform (initialImageEditor, brokenHistory) =
       ((initialImageEditor\<lparr> originalImage := Some demoImage,
           editedImage := Some ''data:image/png;base64,BBBB'' \<rparr>, Map.empty),
        [ConsoleError ''Failed to load state from localStorage'' (ErrorObj ''SyntaxError'')])"
    using original edited hist by (simp add: loadSession_def)
  have nonempty: "initialImageEditor\<lparr> originalImage := Some demoImage,
        editedImage := Some ''data:image/png;base64,BBBB'' \<rparr> \<noteq> initialImageEditor"
    by (simp add: initialImageEditor_def)
  have "\<not> mirrors demoPlatform (initialImageEditor\<lparr> originalImage := Some demoImage,
           editedImage := Some ''data:image/png;base64,BBBB'' \<rparr>, Map.empty)"
    by (simp add: mirrors_def)
  with store parse run nonempty show ?thesis by simp
qed

section \<open>The edit history\<close>

text \<open>
  The statements after the awaited calls, on a successful edit: the setters have run
  whatever the storage does, and when the storage takes both items nothing is caught.
\<close>

lemma afterEdit_memory:
  "history (fst (fst (afterEdit js hist (Inr y) (s, st)))) = hist @ [y]
   \<and> editedImage (fst (fst (afterEdit js hist (Inr y) (s, st)))) = Some y
   \<and> originalImage (fst (fst (afterEdit js hist (Inr y) (s, st)))) = originalImage s
   \<and> \<not> ImageEditor.isLoading (fst (fst (afterEdit js hist (Inr y) (s, st))))"
  by (simp add: afterEdit_def setItem_def split: option.splits)

lemma afterEdit_accepted:
  assumes "quotaError js st ''editedImage'' y = None"
    and "quotaError js (st(''editedImage'' \<mapsto> y)) ''editHistory''
           (stringifyHistory js (hist @ [y])) = None"
  shows "afterEdit js hist (Inr y) (s, st) =
    ((s\<lparr> editedImage := Some y, history := hist @ [y], ImageEditor.isLoading := False \<rparr>,
      st(''editedImage'' \<mapsto> y, ''editHistory'' \<mapsto> stringifyHistory js (hist @ [y]))), [])"
  using assms by (simp add: afterEdit_def setItem_def)

lemma afterEdit_history_key:
  "snd (fst (afterEdit js hist (Inr y) (s, st))) ''editHistory'' =
     (if quotaError js st ''editedImage'' y = None
         \<and> quotaError js (st(''editedImage'' \<mapsto> y)) ''editHistory''
               (stringifyHistory js (hist @ [y])) = None
      then Some (stringifyHistory js (hist @ [y]))
      else st ''editHistory'')"
  by (auto simp: afterEdit_def setItem_def split: option.splits)

lemma handleSubmit_run:
  assumes "originalImage s = Some original" "ImageEditor.prompt s \<noteq> []"
    and "editAndFormat gc br original (ImageEditor.prompt s) (outputFormat s) = (r, ev)"
  shows "ImageEditor_handleSubmit js gc br (s, st) =
    (fst (afterEdit js (history s) r
            (s\<lparr> ImageEditor.isLoading := True, ImageEditor.error := None \<rparr>, st)),
     ev @ snd (afterEdit js (history s) r
            (s\<lparr> ImageEditor.isLoading := True, ImageEditor.error := None \<rparr>, st)))"
  using assms by (simp add: ImageEditor_handleSubmit_def split: prod.splits)

text \<open>
  C5. In a session with an original image and a prompt, reverting to any data URL \<open>x\<close>
  (in particular to any entry of the history) changes the current edited image and
  nothing else in memory, so it leaves the history as it is, and a
  submission made after the revert whose edit and format step succeed with the data URL
  \<open>y\<close> yields the history before the revert followed by \<open>y\<close>, in memory and, when the
  storage takes the two items that the submission writes, under the \<^verbatim>\<open>editHistory\<close> key;
  when the storage refuses one of them, that key is left as it was before the revert.
\<close>

theorem revert_then_append:
  assumes "originalImage s = Some original" "ImageEditor.prompt s \<noteq> []"
    and "editAndFormat gc br original (ImageEditor.prompt s) (outputFormat s) = (Inr y, ev)"
  shows "fst (handleRevertToHistory js x (s, st)) = s\<lparr> editedImage := Some x \<rparr>
    \<and> history (fst (handleRevertToHistory js x (s, st))) = history s
    \<and> history (fst (fst (ImageEditor_handleSubmit js gc br
          (handleRevertToHistory js x (s, st))))) = history s @ [y]
    \<and> snd (fst (ImageEditor_handleSubmit js gc br (handleRevertToHistory js x (s, st))))
          ''editHistory'' =
        (if quotaError js (snd (handleRevertToHistory js x (s, st))) ''editedImage'' y = None
            \<and> quotaError js ((snd (handleRevertToHistory js x (s, st)))(''editedImage'' \<mapsto> y))
                  ''editHistory'' (stringifyHistory js (history s @ [y])) = None
         then Some (stringifyHistory js (history s @ [y]))
         else st ''editHistory'')"
proof -
  let ?s = "s\<lparr> editedImage := Some x \<rparr>"
  obtain st' where rev: "handleRevertToHistory js x (s, st) = (?s, st')"
    and key: "st' ''editHistory'' = st ''editHistory''"
    by (simp add: handleRevertToHistory_def setItem_def split: option.splits)
  have "originalImage ?s = Some original" "ImageEditor.prompt ?s \<noteq> []"
    "editAndFormat gc br original (ImageEditor.prompt ?s) (outputFormat ?s) = (Inr y, ev)"
    using assms by simp_all
  from handleSubmit_run [OF this, of js st']
  have run: "fst (ImageEditor_handleSubmit js gc br (?s, st')) =
      fst (afterEdit js (history s) (Inr y)
             (?s\<lparr> ImageEditor.isLoading := True, ImageEditor.error := None \<rparr>, st'))"
    by simp
  have memory: "history (fst (fst (ImageEditor_handleSubmit js gc br (?s, st'))))
      = history s @ [y]"
    unfolding run using afterEdit_memory by blast
  have stored: "snd (fst (ImageEditor_handleSubmit js gc br (?s, st'))) ''editHistory''
      = (if quotaError js st' ''editedImage'' y = None
            \<and> quotaError js (st'(''editedImage'' \<mapsto> y)) ''editHistory''
                  (stringifyHistory js (history s @ [y])) = None
         then Some (stringifyHistory js (history s @ [y]))
         else st ''editHistory'')"
    unfolding run afterEdit_history_key key by simp
  from memory stored show ?thesis
    unfolding rev by simp
qed

theorem revert_then_append_witness:
  "history (fst (fst (ImageEditor_handleSubmit demoPlatform demoEdit demoBrowser
      (handleRevertToHistory demoPlatform ''data:image/png;base64,BBBB'' demoSession))))
   = [''data:image/png;base64,BBBB'', ''data:image/png;base64,DDDD'',
      ''data:image/png;base64,CCCC'']
   \<and> editedImage (fst (handleRevertToHistory demoPlatform ''data:image/png;base64,BBBB''
        demoSession)) = Some ''data:image/png;base64,BBBB''
   \<and> editedImage (fst demoSession) = Some ''data:image/png;base64,DDDD''
   \<and> snd (fst (ImageEditor_handleSubmit demoPlatform demoEdit demoBrowser
        (handleRevertToHistory demoPlatform ''data:image/png;base64,BBBB'' demoSession)))
        ''editHistory''
      = Some (historyText [''data:image/png;base64,BBBB'', ''data:image/png;base64,DDDD'',
                ''data:image/png;base64,CCCC''])"
proof -
  let ?s = "fst demoSession"
  have 1: "originalImage ?s = Some demoImage" "ImageEditor.prompt ?s \<noteq> []"
    by (simp_all add: demoSession_def initialImageEditor_def)
  have 2: "editAndFormat demoEdit demoBrowser demoImage (ImageEditor.prompt ?s) (outputFormat ?s)
      = (Inr ''data:image/png;base64,CCCC'',
         [GenerateContent (editRequest ''AAAA'' ''image/png'' ''add a hat'')])"
    by (simp add: editAndFormat_def editImageWithPrompt_def demoEdit_def demoImage_def
        demoSession_def initialImageEditor_def finalImageDataUrl_def mimeOf_def)
  have 3: "quotaError demoPlatform st k v = None" for st k v
    by (simp add: demoPlatform_def)
  have 4: "demoSession = (?s, snd demoSession)"
    by simp
  have 5: "history ?s = [''data:image/png;base64,BBBB'', ''data:image/png;base64,DDDD'']"
    "editedImage ?s = Some ''data:image/png;base64,DDDD''"
    "stringifyHistory demoPlatform = historyText"
    by (simp_all add: demoSession_def initialImageEditor_def demoPlatform_def)
  show ?thesis
    using revert_then_append [OF 1 2, of demoPlatform "''data:image/png;base64,BBBB''"
        "snd demoSession"] 3 5
    unfolding 4 [symmetric] by simp
qed

section \<open>Write-through persistence\<close>

text \<open>
  What each operation does in memory, whatever the storage does: the setters of an upload,
  of a revert and of a successful edit run before the storage is written.
\<close>

lemma handlers_memory:
  "fst (handleImageChange js newImage (s, st)) =
     s\<lparr> originalImage := Some newImage, editedImage := None, ImageEditor.error := None,
        history := [] \<rparr>"
  "fst (handleRemoveImage (s, st)) =
     s\<lparr> originalImage := None, editedImage := None, ImageEditor.error := None,
        history := [] \<rparr>"
  "fst (handleRevertToHistory js x (s, st)) = s\<lparr> editedImage := Some x \<rparr>"
  "fst (handleClearHistory (s, st)) = s\<lparr> history := [] \<rparr>"
  by (simp_all add: handleImageChange_def handleRemoveImage_def handleRevertToHistory_def
      handleClearHistory_def split: prod.splits)

text \<open>
  What each operation does to the storage when the storage takes the items written: an
  upload writes the original and removes the other two keys, a removal removes the three
  keys, a revert writes the edited image, clearing removes the history, and a successful
  edit writes the edited image and the history.
\<close>

lemma handlers_storage:
  "quotaError js st ''originalImage'' (stringifyImage js newImage) = None \<Longrightarrow>
   snd (handleImageChange js newImage (s, st)) =
     st(''originalImage'' \<mapsto> stringifyImage js newImage, ''editedImage'' := None,
        ''editHistory'' := None)"
  "snd (handleRemoveImage (s, st)) =
     st(''originalImage'' := None, ''editedImage'' := None, ''editHistory'' := None)"
  "quotaError js st ''editedImage'' x = None \<Longrightarrow>
   snd (handleRevertToHistory js x (s, st)) = st(''editedImage'' \<mapsto> x)"
  "snd (handleClearHistory (s, st)) = st(''editHistory'' := None)"
  by (simp_all add: handleImageChange_def handleRemoveImage_def handleRevertToHistory_def
      handleClearHistory_def setItem_def)

text \<open>
  When the storage takes every item, each operation of a mounted editor keeps the mirror,
  a submission with any outcome and with any history in the closure of the handler.
\<close>

lemma afterEdit_mirrors:
  assumes "\<forall>st k v. quotaError js st k v = None" "mirrors js \<sigma>"
  shows "mirrors js (fst (afterEdit js hist r \<sigma>))"
  using assms by (cases \<sigma>; cases r) (simp_all add: mirrors_def afterEdit_def setItem_def)

lemma handleSubmit_mirrors:
  assumes "\<forall>st k v. quotaError js st k v = None" "mirrors js \<sigma>"
  shows "mirrors js (fst (ImageEditor_handleSubmit js gc br \<sigma>))"
proof (cases \<sigma>)
  case (Pair s st)
  have m: "mirrors js (s\<lparr> ImageEditor.isLoading := True, ImageEditor.error := None \<rparr>, st)"
    "mirrors js (s\<lparr> ImageEditor.error := Some msg \<rparr>, st)" for msg
    using assms Pair by (simp_all add: mirrors_def)
  show ?thesis
  proof (cases "originalImage s")
    case None
    with m Pair show ?thesis by (simp add: ImageEditor_handleSubmit_def)
  next
    case (Some original)
    show ?thesis
    proof (cases "ImageEditor.prompt s = []")
      case True
      with Some m Pair show ?thesis by (simp add: ImageEditor_handleSubmit_def)
    next
      case False
      obtain r ev
        where e: "editAndFormat gc br original (ImageEditor.prompt s) (outputFormat s) = (r, ev)"
        by (cases "editAndFormat gc br original (ImageEditor.prompt s) (outputFormat s)")
      from handleSubmit_run [OF Some False e, of js st] Pair
      have "fst (ImageEditor_handleSubmit js gc br \<sigma>) =
            fst (afterEdit js (history s) r
                   (s\<lparr> ImageEditor.isLoading := True, ImageEditor.error := None \<rparr>, st))"
        by simp
      with afterEdit_mirrors [OF assms(1) m(1)] show ?thesis by simp
    qed
  qed
qed

lemma accepted_writes_mirror:
  assumes "\<forall>st k v. quotaError js st k v = None" "mirrors js \<sigma>"
  shows "mirrors js (handleImageChange js newImage \<sigma>)"
    and "mirrors js (handleRemoveImage \<sigma>)"
    and "mirrors js (fst (ImageEditor_handleSubmit js gc br \<sigma>))"
    and "mirrors js (handleRevertToHistory js x \<sigma>)"
    and "mirrors js (handleClearHistory \<sigma>)"
proof -
  obtain s st where \<sigma>: "\<sigma> = (s, st)" by (cases \<sigma>)
  show "mirrors js (handleImageChange js newImage \<sigma>)"
    using assms unfolding \<sigma> by (simp add: mirrors_def handleImageChange_def setItem_def)
  show "mirrors js (handleRemoveImage \<sigma>)"
    using assms unfolding \<sigma> by (simp add: mirrors_def handleRemoveImage_def)
  show "mirrors js (fst (ImageEditor_handleSubmit js gc br \<sigma>))"
    using handleSubmit_mirrors [OF assms] .
  show "mirrors js (handleRevertToHistory js x \<sigma>)"
    using assms unfolding \<sigma> by (simp add: mirrors_def handleRevertToHistory_def setItem_def)
  show "mirrors js (handleClearHistory \<sigma>)"
    using assms unfolding \<sigma> by (simp add: mirrors_def handleClearHistory_def)
qed

text \<open>
  In the page, a click on the edit button followed by the settling of the edit, with
  nothing in between, is one run of \<^verbatim>\<open>handleSubmit\<close>.
\<close>

lemma click_then_settle:
  assumes "editor p = Some s" "editsInFlight p = []"
    and "originalImage s = Some original" "ImageEditor.prompt s \<noteq> []"
    and "\<not> ImageEditor.isLoading s"
  shows "editor (editorSteps js p [ClickEdit, SettleEdit gc br])
           = Some (fst (fst (ImageEditor_handleSubmit js gc br (s, localStorage p))))
     \<and> localStorage (editorSteps js p [ClickEdit, SettleEdit gc br])
           = snd (fst (ImageEditor_handleSubmit js gc br (s, localStorage p)))"
proof -
  let ?call = "editAndFormat gc br original (ImageEditor.prompt s) (outputFormat s)"
  have "?call = (fst ?call, snd ?call)"
    by simp
  from handleSubmit_run [OF assms(3,4) this, of js "localStorage p"]
  have run: "fst (ImageEditor_handleSubmit js gc br (s, localStorage p)) =
      fst (afterEdit js (history s) (fst ?call)
             (s\<lparr> ImageEditor.isLoading := True, ImageEditor.error := None \<rparr>,
              localStorage p))"
    by simp
  show ?thesis
    unfolding run using assms
    by (simp add: editorSteps_def split: prod.splits)
qed

lemma mirrors_initial: "mirrors js (initialImageEditor, Map.empty)"
  by (simp add: mirrors_def initialImageEditor_def)

lemma mirrors_demoSession: "mirrors demoPlatform demoSession \<and> mirrors fullStorage demoSession"
  by (simp add: mirrors_def demoSession_def demoStore_def demoPlatform_def fullStorage_def
      initialImageEditor_def historyText_def)

text \<open>The third edit of the demo session: the calls succeed with the image \<open>CCCC\<close>.\<close>

lemma demo_edit_result:
  "editAndFormat demoEdit demoBrowser demoImage ''add a hat'' PNG
     = (Inr ''data:image/png;base64,CCCC'',
        [GenerateContent (editRequest ''AAAA'' ''image/png'' ''add a hat'')])"
  by (simp add: editAndFormat_def editImageWithPrompt_def demoEdit_def demoImage_def
      finalImageDataUrl_def mimeOf_def)

lemma fullStorage_decisions:
  "quotaError fullStorage st ''editedImage'' ''data:image/png;base64,CCCC'' = None"
  "quotaError fullStorage st ''editHistory''
     (stringifyHistory fullStorage
        [''data:image/png;base64,BBBB'', ''data:image/png;base64,DDDD'',
         ''data:image/png;base64,CCCC''])
   = Some (ErrorObj ''The quota has been exceeded.'')"
  by (simp_all add: fullStorage_def demoPlatform_def historyText_def quoted_def)

text \<open>
  C6. The claim is that every operation that changes the original image, the current
  edited image or the history writes or removes the corresponding keys in the same step,
  so that after each operation the store mirrors the session in memory. The writes and
  removals are there, but the conclusion does not hold of the code, in two ways.

  First, the setters run before the storage is written and nothing undoes them when the
  storage refuses an item. In a session that the store mirrors, with two edits made, a
  third edit succeeds; the storage takes the edited image and refuses the longer history.
  The editor then shows three entries and an error message, while the store still holds
  the history of two.

  Second, an edit that is in flight when its editor is torn down still writes the storage
  when it settles, and its setters reach no editor. The user starts the third edit, leaves
  image mode and returns; the editor mounted on return loads the session of two edits.
  When the edit settles the store holds three entries and the editor two.
\<close>

theorem write_through_breaks:
  "mirrors fullStorage demoSession
   \<and> history (fst (fst (ImageEditor_handleSubmit fullStorage demoEdit demoBrowser demoSession)))
       = [''data:image/png;base64,BBBB'', ''data:image/png;base64,DDDD'',
          ''data:image/png;base64,CCCC'']
   \<and> ImageEditor.error (fst (fst (ImageEditor_handleSubmit fullStorage demoEdit demoBrowser
         demoSession))) = Some ''The quota has been exceeded.''
   \<and> snd (fst (ImageEditor_handleSubmit fullStorage demoEdit demoBrowser demoSession))
       = demoStore(''editedImage'' \<mapsto> ''data:image/png;base64,CCCC'')
   \<and> snd (fst (ImageEditor_handleSubmit fullStorage demoEdit demoBrowser demoSession))
         ''editHistory''
       = Some (historyText [''data:image/png;base64,BBBB'', ''data:image/png;base64,DDDD''])
   \<and> \<not> mirrors fullStorage
         (fst (ImageEditor_handleSubmit fullStorage demoEdit demoBrowser demoSession))
   \<and> map_option history (editor (editorSteps demoPlatform (initialEditorPage demoStore)
        [OpenEditor, TypeEditPrompt ''add a hat'', ClickEdit, CloseEditor, OpenEditor,
         SettleEdit demoEdit demoBrowser]))
       = Some [''data:image/png;base64,BBBB'', ''data:image/png;base64,DDDD'']
   \<and> localStorage (editorSteps demoPlatform (initialEditorPage demoStore)
        [OpenEditor, TypeEditPrompt ''add a hat'', ClickEdit, CloseEditor, OpenEditor,
         SettleEdit demoEdit demoBrowser]) ''editHistory''
       = Some (historyText [''data:image/png;base64,BBBB'', ''data:image/png;base64,DDDD'',
                 ''data:image/png;base64,CCCC''])
   \<and> \<not> pageMirrors demoPlatform (editorSteps demoPlatform (initialEditorPage demoStore)
        [OpenEditor, TypeEditPrompt ''add a hat'', ClickEdit, CloseEditor, OpenEditor,
         SettleEdit demoEdit demoBrowser])"
proof -
  let ?s = "initialImageEditor\<lparr> originalImage := Some demoImage,
        editedImage := Some ''data:image/png;base64,DDDD'',
        ImageEditor.prompt := ''add a hat'',
        history := [''data:image/png;base64,BBBB'', ''data:image/png;base64,DDDD''] \<rparr>"
  let ?h3 = "[''data:image/png;base64,BBBB'', ''data:image/png;base64,DDDD'',
          ''data:image/png;base64,CCCC'']"
  have before: "mirrors fullStorage demoSession"
    using mirrors_demoSession by simp
  have checks: "originalImage ?s = Some demoImage" "ImageEditor.prompt ?s \<noteq> []"
    "editAndFormat demoEdit demoBrowser demoImage (ImageEditor.prompt ?s) (outputFormat ?s)
       = (Inr ''data:image/png;base64,CCCC'',
          [GenerateContent (editRequest ''AAAA'' ''image/png'' ''add a hat'')])"
    using demo_edit_result by (simp_all add: initialImageEditor_def)
  have run: "fst (ImageEditor_handleSubmit fullStorage demoEdit demoBrowser demoSession) =
      (?s\<lparr> ImageEditor.isLoading := False,
           ImageEditor.error := Some ''The quota has been exceeded.'',
           editedImage := Some ''data:image/png;base64,CCCC'', history := ?h3 \<rparr>,
       demoStore(''editedImage'' \<mapsto> ''data:image/png;base64,CCCC''))"
    using handleSubmit_run [OF checks, of fullStorage demoStore] fullStorage_decisions
    by (simp add: demoSession_def afterEdit_def setItem_def caughtMessage_def
        initialImageEditor_def)
  have kept: "(demoStore(''editedImage'' \<mapsto> ''data:image/png;base64,CCCC'')) ''editHistory''
      = Some (historyText [''data:image/png;base64,BBBB'', ''data:image/png;base64,DDDD''])"
    by (simp add: demoStore_def)
  have differ: "historyText [''data:image/png;base64,BBBB'', ''data:image/png;base64,DDDD'']
      \<noteq> historyText ?h3"
    by (simp add: historyText_def quoted_def)
  have after: "\<not> mirrors fullStorage
      (fst (ImageEditor_handleSubmit fullStorage demoEdit demoBrowser demoSession))"
    unfolding run using kept differ
    by (simp add: mirrors_def fullStorage_def demoPlatform_def)
  let ?loaded = "initialImageEditor\<lparr> originalImage := Some demoImage,
        editedImage := Some ''data:image/png;base64,DDDD'',
        history := [''data:image/png;base64,BBBB'', ''data:image/png;base64,DDDD''] \<rparr>"
  have load: "fst (loadSession demoPlatform (initialImageEditor, demoStore)) = (?loaded, demoStore)"
    by (simp add: loadSession_def restoreOriginal_def restoreEdited_def restoreHistory_def
        demoStore_def demoPlatform_def imageText_def historyText_def quoted_def)
  have accepted: "quotaError demoPlatform st k v = None" for st k v
    by (simp add: demoPlatform_def)
  have settle: "fst (afterEdit demoPlatform
        [''data:image/png;base64,BBBB'', ''data:image/png;base64,DDDD'']
        (fst (editAndFormat demoEdit demoBrowser demoImage ''add a hat'' PNG))
        (initialImageEditor, demoStore))
      = (initialImageEditor\<lparr> editedImage := Some ''data:image/png;base64,CCCC'',
           history := ?h3, ImageEditor.isLoading := False \<rparr>,
         demoStore(''editedImage'' \<mapsto> ''data:image/png;base64,CCCC'',
                   ''editHistory'' \<mapsto> historyText ?h3))"
    unfolding demo_edit_result
    using afterEdit_accepted [where js = demoPlatform and st = demoStore
        and y = "''data:image/png;base64,CCCC''"
        and hist = "[''data:image/png;base64,BBBB'', ''data:image/png;base64,DDDD'']"
        and s = initialImageEditor] accepted
    by (simp add: demoPlatform_def)
  have page: "editorSteps demoPlatform (initialEditorPage demoStore)
        [OpenEditor, TypeEditPrompt ''add a hat'', ClickEdit, CloseEditor, OpenEditor,
         SettleEdit demoEdit demoBrowser]
      = \<lparr> editor = Some ?loaded, editorMounts = 2,
          localStorage = demoStore(''editedImage'' \<mapsto> ''data:image/png;base64,CCCC'',
                                   ''editHistory'' \<mapsto> historyText ?h3),
          editsInFlight = [] \<rparr>"
  proof -
    have init: "\<not> ImageEditor.isLoading initialImageEditor"
      "ImageEditor.prompt initialImageEditor = []" "outputFormat initialImageEditor = PNG"
      by (simp_all add: initialImageEditor_def)
    show ?thesis
      by (simp add: editorSteps_def initialEditorPage_def onEditor_def load settle init
          numeral_2_eq_2)
  qed
  have orphan: "\<not> pageMirrors demoPlatform (editorSteps demoPlatform (initialEditorPage demoStore)
        [OpenEditor, TypeEditPrompt ''add a hat'', ClickEdit, CloseEditor, OpenEditor,
         SettleEdit demoEdit demoBrowser])"
    unfolding page by (simp add: pageMirrors_def mirrors_def)
  from before run kept after orphan show ?thesis
    unfolding page by simp
qed

text \<open>
  The same happens after a load that failed on the history (C4): the editor holds the
  original image over a cleared store, and a revert made then writes the edited image
  only.
\<close>

lemma revert_after_partial_load:
  "\<not> mirrors demoPlatform (handleRevertToHistory demoPlatform ''data:image/png;base64,BBBB''
        (fst (loadSession demoPlatform (initialImageEditor, brokenHistory))))"
  by (simp add: loadSession_def restoreOriginal_def restoreEdited_def restoreHistory_def
      brokenHistory_def demoPlatform_def imageText_def historyText_def quoted_def
      handleRevertToHistory_def setItem_def mirrors_def)

section \<open>The format step\<close>

text \<open>
  C7. When the mime type of the edited image equals the selected output format, the
  format step returns the data URL made of that mime type and the very base64 payload
  received, loads no image and makes no canvas call: nothing is decoded or encoded,
  whatever the browser.
\<close>

theorem same_encoding_unchanged:
  assumes "newImageMimeType = mimeOf fmt"
  shows "finalImageDataUrl br newImageBase64 newImageMimeType fmt =
           (Inr (''data:'' @ newImageMimeType @ '';base64,'' @ newImageBase64), [])"
  using assms by (simp add: finalImageDataUrl_def)

theorem same_encoding_unchanged_witness:
  "finalImageDataUrl demoBrowser ''CCCC'' ''image/png'' PNG =
     (Inr ''data:image/png;base64,CCCC'', [])"
proof -
  have 1: "''image/png'' = mimeOf PNG" by (simp add: mimeOf_def)
  show ?thesis using same_encoding_unchanged [OF 1, of demoBrowser "''CCCC''"] by simp
qed

section \<open>Conversion to JPEG\<close>

lemma alpha_over_opaque_source: "alpha s = 255 \<Longrightarrow> alpha (over s d) = 255"
  by (simp add: over_def Let_def)

lemma alpha_over_opaque_destination:
  assumes "alpha d = 255"
  shows "alpha (over s d) = 255"
proof -
  have "unat (alpha s) < 2 ^ 8"
    using unsigned_less [of "alpha s"] by simp
  then have "unat (alpha s) + 255 * (255 - unat (alpha s)) div 255 = 255"
    by simp
  with assms show ?thesis
    by (simp add: over_def Let_def)
qed

lemma cssColour_white:
  "cssColour ''#FFFFFF'' = Some \<lparr> red = 255, green = 255, blue = 255, alpha = 255 \<rparr>"
  by (simp add: hexByte_def hexDigit_def)

lemma length_repaint: "length (pixels (repaint f r)) = length (pixels r)"
  by (simp add: repaint_def)

lemma repaint_keeps_opaque:
  assumes "\<forall>p \<in> set (pixels r). alpha p = 255"
    and "\<And>col row d. alpha d = 255 \<Longrightarrow> alpha (f col row d) = 255"
  shows "\<forall>p \<in> set (pixels (repaint f r)). alpha p = 255"
  using assms by (auto simp: repaint_def set_zip)

lemma repaint_makes_opaque:
  assumes "length (pixels r) \<le> width r * height r"
    and "\<And>col row d. col < width r \<Longrightarrow> row < height r \<Longrightarrow> alpha (f col row d) = 255"
  shows "\<forall>p \<in> set (pixels (repaint f r)). alpha p = 255"
proof -
  have "i mod width r < width r \<and> i div width r < height r" if "i < length (pixels r)" for i
  proof -
    from that assms(1) have lt: "i < width r * height r" by simp
    then have "0 < width r" by (cases "width r") simp_all
    moreover have "i div width r < height r"
      using lt by (simp add: less_mult_imp_div_less mult.commute)
    ultimately show ?thesis by simp
  qed
  with assms(2) show ?thesis
    by (auto simp: repaint_def set_zip)
qed

text \<open>The surface after the canvas calls of a conversion to JPEG.\<close>

lemma paint_jpeg:
  "surface (paint (canvasCalls img JPEG)) =
     repaint (\<lambda>col row d. case pixelAt img col row of None \<Rightarrow> d | Some s \<Rightarrow> over s d)
       (repaint (\<lambda>col row d. if col < width img \<and> row < height img
                   then over \<lparr> red = 255, green = 255, blue = 255, alpha = 255 \<rparr> d else d)
          \<lparr> width = width img, height = height img,
            pixels = replicate (width img * height img)
                       \<lparr> red = 0, green = 0, blue = 0, alpha = 0 \<rparr> \<rparr>)"
  by (simp add: paint_def canvasCalls_def newCanvas_def cssColour_white
      del: cssColour.simps cong: if_cong)

text \<open>
  C8. Whenever the source decodes and a 2D context is available, a conversion to
  \<^verbatim>\<open>image/jpeg\<close> loads the image, sizes the canvas to it, sets the fill style to
  \<^verbatim>\<open>#FFFFFF\<close>, fills the whole canvas, and only then draws the image and encodes with
  quality 0.9; the surface handed to the encoder has one pixel per pixel of the image and
  every one of them is fully opaque. A conversion to \<^verbatim>\<open>image/png\<close> makes no fill and
  encodes with the same quality 0.9.
\<close>

theorem jpeg_conversion_opaque:
  assumes "decodeImage br (''data:'' @ fromMimeType @ '';base64,'' @ base64Data) = Some img"
    and "getContext2d br"
  shows "convertImageFormat br base64Data fromMimeType JPEG =
      (Inr (encodeImage br
              (surface (paint [SetSize (width img) (height img), FillStyle ''#FFFFFF'',
                 FillRect 0 0 (width img) (height img), DrawImage img 0 0,
                 ToDataURL ''image/jpeg'' (9 / 10)]))
              ''image/jpeg'' (9 / 10)),
       [LoadImage (''data:'' @ fromMimeType @ '';base64,'' @ base64Data),
        SetSize (width img) (height img), FillStyle ''#FFFFFF'',
        FillRect 0 0 (width img) (height img), DrawImage img 0 0,
        ToDataURL ''image/jpeg'' (9 / 10)])
    \<and> length (pixels (surface (paint [SetSize (width img) (height img), FillStyle ''#FFFFFF'',
                 FillRect 0 0 (width img) (height img), DrawImage img 0 0,
                 ToDataURL ''image/jpeg'' (9 / 10)]))) = width img * height img
    \<and> (\<forall>p \<in> set (pixels (surface (paint [SetSize (width img) (height img),
                 FillStyle ''#FFFFFF'', FillRect 0 0 (width img) (height img),
                 DrawImage img 0 0, ToDataURL ''image/jpeg'' (9 / 10)]))). alpha p = 255)
    \<and> convertImageFormat br base64Data fromMimeType PNG =
      (Inr (encodeImage br
              (surface (paint [SetSize (width img) (height img), DrawImage img 0 0,
                 ToDataURL ''image/png'' (9 / 10)]))
              ''image/png'' (9 / 10)),
       [LoadImage (''data:'' @ fromMimeType @ '';base64,'' @ base64Data),
        SetSize (width img) (height img), DrawImage img 0 0,
        ToDataURL ''image/png'' (9 / 10)])"
proof -
  let ?cmds = "[SetSize (width img) (height img), FillStyle ''#FFFFFF'',
        FillRect 0 0 (width img) (height img), DrawImage img 0 0,
        ToDataURL ''image/jpeg'' (9 / 10)]"
  let ?url = "''data:'' @ fromMimeType @ '';base64,'' @ base64Data"
  have calls: "canvasCalls img JPEG = ?cmds"
    by (simp add: canvasCalls_def mimeOf_def)
  have conv: "convertImageFormat br base64Data fromMimeType JPEG =
      (Inr (encodeImage br (surface (paint ?cmds)) ''image/jpeg'' (9 / 10)),
       LoadImage ?url # ?cmds)"
    using assms by (simp add: convertImageFormat_def calls mimeOf_def)
  let ?blank = "\<lparr> width = width img, height = height img,
            pixels = replicate (width img * height img)
                       \<lparr> red = 0, green = 0, blue = 0, alpha = 0 \<rparr> \<rparr>"
  let ?filled = "repaint (\<lambda>col row d. if col < width img \<and> row < height img
                   then over \<lparr> red = 255, green = 255, blue = 255, alpha = 255 \<rparr> d else d)
                   ?blank"
  have filled: "\<forall>p \<in> set (pixels ?filled). alpha p = 255"
    by (rule repaint_makes_opaque) (simp_all add: alpha_over_opaque_source)
  have drawn: "\<forall>p \<in> set (pixels (surface (paint (canvasCalls img JPEG)))). alpha p = 255"
    unfolding paint_jpeg
    by (rule repaint_keeps_opaque [OF filled])
       (simp add: alpha_over_opaque_destination split: option.splits)
  have len: "length (pixels (surface (paint (canvasCalls img JPEG)))) = width img * height img"
    unfolding paint_jpeg by (simp add: length_repaint)
  have png: "convertImageFormat br base64Data fromMimeType PNG =
      (Inr (encodeImage br
              (surface (paint [SetSize (width img) (height img), DrawImage img 0 0,
                 ToDataURL ''image/png'' (9 / 10)]))
              ''image/png'' (9 / 10)),
       [LoadImage ?url, SetSize (width img) (height img), DrawImage img 0 0,
        ToDataURL ''image/png'' (9 / 10)])"
    using assms by (simp add: convertImageFormat_def canvasCalls_def mimeOf_def)
  show ?thesis
    using conv drawn len png unfolding calls by simp
qed

theorem jpeg_conversion_opaque_witness:
  "fst (convertImageFormat demoBrowser ''CCCC'' ''image/png'' JPEG)
     = Inr ''data:image/jpeg;base64,oo''"
proof -
  have 1: "decodeImage demoBrowser (''data:'' @ ''image/png'' @ '';base64,'' @ ''CCCC'')
             = Some demoSource"
    by (simp add: demoBrowser_def)
  have 2: "getContext2d demoBrowser"
    by (simp add: demoBrowser_def)
  let ?R = "surface (paint [SetSize (width demoSource) (height demoSource),
                 FillStyle ''#FFFFFF'',
                 FillRect 0 0 (width demoSource) (height demoSource), DrawImage demoSource 0 0,
                 ToDataURL ''image/jpeg'' (9 / 10)])"
  from jpeg_conversion_opaque [OF 1 2]
  have conv: "fst (convertImageFormat demoBrowser ''CCCC'' ''image/png'' JPEG)
      = Inr (encodeImage demoBrowser ?R ''image/jpeg'' (9 / 10))"
    and len: "length (pixels ?R) = width demoSource * height demoSource"
    and opaque: "\<forall>p \<in> set (pixels ?R). alpha p = 255"
    by simp_all
  from len obtain p q where pq: "pixels ?R = [p, q]"
    by (cases "pixels ?R"; cases "tl (pixels ?R)") (auto simp: demoSource_def)
  with opaque have "alpha p = 255" "alpha q = 255" by simp_all
  with pq conv show ?thesis
    by (simp add: demoBrowser_def)
qed

section \<open>The input of an edit\<close>

text \<open>
  The awaited calls of a submission start with the one call of the gateway, whose request
  holds the base64 data and the mime type of the original image and the prompt; the
  statements after them call nothing.
\<close>

lemma editAndFormat_events:
  "\<exists>ev. snd (editAndFormat gc br original p fmt)
      = GenerateContent \<lparr> cr_model = ''gemini-2.5-flash-image'',
          parts = [InlineData (base64 original) (mimeType original), TextPart p],
          responseModalities = [''IMAGE''] \<rparr> # ev
    \<and> (\<forall>req. GenerateContent req \<notin> set ev)"
  by (auto simp: editAndFormat_def editImageWithPrompt_def editRequest_def Let_def
      split: sum.splits option.splits prod.splits)

lemma afterEdit_events:
  "\<forall>req. GenerateContent req \<notin> set (snd (afterEdit js hist r \<sigma>))"
  by (cases \<sigma>; cases r) (auto simp: afterEdit_def setItem_def split: option.splits)

lemma handleSubmit_events:
  assumes "originalImage s = Some original" "ImageEditor.prompt s \<noteq> []"
  shows "\<exists>ev. snd (ImageEditor_handleSubmit js gc br (s, st))
      = GenerateContent \<lparr> cr_model = ''gemini-2.5-flash-image'',
          parts = [InlineData (base64 original) (mimeType original),
                   TextPart (ImageEditor.prompt s)],
          responseModalities = [''IMAGE''] \<rparr> # ev
    \<and> (\<forall>req. GenerateContent req \<notin> set ev)"
proof -
  let ?call = "editAndFormat gc br original (ImageEditor.prompt s) (outputFormat s)"
  let ?after = "afterEdit js (history s) (fst ?call)
      (s\<lparr> ImageEditor.isLoading := True, ImageEditor.error := None \<rparr>, st)"
  obtain ev where ev: "snd ?call
      = GenerateContent \<lparr> cr_model = ''gemini-2.5-flash-image'',
          parts = [InlineData (base64 original) (mimeType original),
                   TextPart (ImageEditor.prompt s)],
          responseModalities = [''IMAGE''] \<rparr> # ev"
      "\<forall>req. GenerateContent req \<notin> set ev"
    using editAndFormat_events by blast
  have "?call = (fst ?call, snd ?call)"
    by simp
  from handleSubmit_run [OF assms this, of js st]
  have "snd (ImageEditor_handleSubmit js gc br (s, st)) = snd ?call @ snd ?after"
    by simp
  with ev afterEdit_events [of js "history s" "fst ?call"] show ?thesis
    by auto
qed

text \<open>
  C10. A submission that passes the local checks calls the gateway exactly once, and the
  request of that call holds the base64 data and the mime type of the original image,
  followed by the prompt. A revert to any data URL \<open>x\<close> changes the current edited image
  in memory and nothing else, and writes nothing but the \<^verbatim>\<open>editedImage\<close> key; a
  submission made after it again calls the gateway exactly once, with the same request
  built from the original image.
\<close>

theorem edit_uses_original:
  assumes "originalImage s = Some original" "ImageEditor.prompt s \<noteq> []"
  shows "(\<exists>ev. snd (ImageEditor_handleSubmit js gc br (s, st))
            = GenerateContent \<lparr> cr_model = ''gemini-2.5-flash-image'',
                parts = [InlineData (base64 original) (mimeType original),
                         TextPart (ImageEditor.prompt s)],
                responseModalities = [''IMAGE''] \<rparr> # ev
          \<and> (\<forall>req. GenerateContent req \<notin> set ev))
    \<and> fst (handleRevertToHistory js x (s, st)) = s\<lparr> editedImage := Some x \<rparr>
    \<and> (snd (handleRevertToHistory js x (s, st)) = st
        \<or> snd (handleRevertToHistory js x (s, st)) = st(''editedImage'' \<mapsto> x))
    \<and> (\<exists>ev. snd (ImageEditor_handleSubmit js gc br (handleRevertToHistory js x (s, st)))
            = GenerateContent \<lparr> cr_model = ''gemini-2.5-flash-image'',
                parts = [InlineData (base64 original) (mimeType original),
                         TextPart (ImageEditor.prompt s)],
                responseModalities = [''IMAGE''] \<rparr> # ev
          \<and> (\<forall>req. GenerateContent req \<notin> set ev))"
proof -
  let ?s = "s\<lparr> editedImage := Some x \<rparr>"
  let ?st = "snd (handleRevertToHistory js x (s, st))"
  have rev: "handleRevertToHistory js x (s, st) = (?s, ?st)"
    by (simp add: handleRevertToHistory_def)
  have store: "?st = st \<or> ?st = st(''editedImage'' \<mapsto> x)"
    by (simp add: handleRevertToHistory_def setItem_def split: option.splits)
  have checks: "originalImage ?s = Some original" "ImageEditor.prompt ?s \<noteq> []"
    using assms by simp_all
  have before: "\<exists>ev. snd (ImageEditor_handleSubmit js gc br (s, st))
            = GenerateContent \<lparr> cr_model = ''gemini-2.5-flash-image'',
                parts = [InlineData (base64 original) (mimeType original),
                         TextPart (ImageEditor.prompt s)],
                responseModalities = [''IMAGE''] \<rparr> # ev
          \<and> (\<forall>req. GenerateContent req \<notin> set ev)"
    using handleSubmit_events [OF assms] .
  have "\<exists>ev. snd (ImageEditor_handleSubmit js gc br (?s, ?st))
            = GenerateContent \<lparr> cr_model = ''gemini-2.5-flash-image'',
                parts = [InlineData (base64 original) (mimeType original),
                         TextPart (ImageEditor.prompt ?s)],
                responseModalities = [''IMAGE''] \<rparr> # ev
          \<and> (\<forall>req. GenerateContent req \<notin> set ev)"
    using handleSubmit_events [OF checks] .
  then have "\<exists>ev. snd (ImageEditor_handleSubmit js gc br (handleRevertToHistory js x (s, st)))
            = GenerateContent \<lparr> cr_model = ''gemini-2.5-flash-image'',
                parts = [InlineData (base64 original) (mimeType original),
                         TextPart (ImageEditor.prompt s)],
                responseModalities = [''IMAGE''] \<rparr> # ev
          \<and> (\<forall>req. GenerateContent req \<notin> set ev)"
    using rev by simp
  with before store show ?thesis
    by (simp add: handleRevertToHistory_def)
qed

theorem edit_uses_original_witness:
  "editedImage (fst demoSession) = Some ''data:image/png;base64,DDDD''
   \<and> editedImage (fst (handleRevertToHistory demoPlatform ''data:image/png;base64,BBBB''
        demoSession)) = Some ''data:image/png;base64,BBBB''
   \<and> (\<exists>ev. snd (ImageEditor_handleSubmit demoPlatform demoEdit demoBrowser
          (handleRevertToHistory demoPlatform ''data:image/png;base64,BBBB'' demoSession))
        = GenerateContent \<lparr> cr_model = ''gemini-2.5-flash-image'',
            parts = [InlineData ''AAAA'' ''image/png'', TextPart ''add a hat''],
            responseModalities = [''IMAGE''] \<rparr> # ev
      \<and> (\<forall>req. GenerateContent req \<notin> set ev))"
proof -
  let ?s = "fst demoSession"
  have 1: "originalImage ?s = Some demoImage" "ImageEditor.prompt ?s \<noteq> []"
    by (simp_all add: demoSession_def initialImageEditor_def)
  have 2: "demoSession = (?s, snd demoSession)"
    by simp
  have 3: "base64 demoImage = ''AAAA''" "mimeType demoImage = ''image/png''"
    "ImageEditor.prompt ?s = ''add a hat''"
    "editedImage ?s = Some ''data:image/png;base64,DDDD''"
    by (simp_all add: demoImage_def demoSession_def initialImageEditor_def)
  show ?thesis
    using edit_uses_original [OF 1, of demoPlatform demoEdit demoBrowser "snd demoSession"
        "''data:image/png;base64,BBBB''"] 3
    unfolding 2 [symmetric] by simp
qed

section \<open>Object URLs of the video view\<close>

lemma readyGateway_run:
  "generateVideoWithPrompt (readyGateway u) p ar img =
     Some (Inr u, [GenerateVideos (videoRequest p ar img),
                   Fetch ''https://host/v1?alt=media&key=k1'', ReadBlob,
                   CreateObjectURL ''mp4-bytes'' u])"
  by (simp add: generateVideoWithPrompt_def tryBlock_def readyGateway_def retrieve_def
      downloadLink_def videoAt_def)

text \<open>
  A submission that goes through releases the object URL the view holds before anything
  else happens, in particular before the call that makes the next one.
\<close>

lemma submit_releases_previous:
  assumes "submitBlocked s = None" "videoUrl s = Some u" "u \<noteq> []"
    and "VideoGenerator_handleSubmit gw s = Some (s', ev)"
  shows "\<exists>r ev'. generateVideoWithPrompt gw (VideoGenerator.prompt s) (aspectRatio s)
          (serviceArgument (startingImage s)) = Some (r, ev')
        \<and> ev = RevokeObjectURL u # ev'"
  using assms
  by (auto simp: VideoGenerator_handleSubmit_def beforeAwait_def releaseVideoUrl_def
      split: option.splits)

text \<open>
  C9. The claim is that every submission and every teardown releases the object URL made
  before, so that at no step two object URLs are live and none is leaked. The releases are
  there, but the conclusion does not hold of the code. The user starts a generation and
  leaves video mode while the call is in flight: the teardown finds no URL to release, the
  call settles afterwards and its object URL stays live with no view to release it. After
  returning to video mode and generating again, two object URLs are live.
\<close>

theorem teardown_in_flight_leaks:
  "liveURLs (interactions initialPage
     [Mount, SelectKey, TypePrompt ''a cat'', ClickGenerate, Unmount,
      Settle (readyGateway ''blob:A'')]) = [''blob:A'']
   \<and> view (interactions initialPage
     [Mount, SelectKey, TypePrompt ''a cat'', ClickGenerate, Unmount,
      Settle (readyGateway ''blob:A'')]) = None
   \<and> liveURLs (interactions initialPage
     [Mount, SelectKey, TypePrompt ''a cat'', ClickGenerate, Unmount,
      Settle (readyGateway ''blob:A''),
      Mount, SelectKey, TypePrompt ''a dog'', ClickGenerate,
      Settle (readyGateway ''blob:B'')]) = [''blob:B'', ''blob:A'']
   \<and> map_option videoUrl (view (interactions initialPage
     [Mount, SelectKey, TypePrompt ''a cat'', ClickGenerate, Unmount,
      Settle (readyGateway ''blob:A''),
      Mount, SelectKey, TypePrompt ''a dog'', ClickGenerate,
      Settle (readyGateway ''blob:B'')])) = Some (Some ''blob:B'')"
  by (simp add: interactions_def initialPage_def initialVideoGenerator_def submitBlocked_def
      beforeAwait_def releaseVideoUrl_def effectCleanup_def afterAwait_def serviceArgument_def
      readyGateway_run)

text \<open>
  What does hold: as long as no view is torn down while its call is in flight, every
  interaction keeps the page tidy, and a tidy page has at most one live object URL.
\<close>

lemma liveAfter_append: "liveAfter (a @ b) l = liveAfter b (liveAfter a l)"
  by (induction a l rule: liveAfter.induct) simp_all

lemma awaitDone_live: "awaitDone opn rs = Some (res, tr) \<Longrightarrow> liveAfter tr l = l"
proof (induction rs arbitrary: opn res tr)
  case Nil
  then show ?case by (simp split: if_splits)
next
  case (Cons r rs)
  then show ?case
    by (auto split: if_splits sum.splits option.splits)
qed

lemma retrieve_cases:
  "retrieve gw opn =
     (Inl (ErrorObj ''Video generation succeeded but no download link was found.''), [])
   \<or> (\<exists>t u. retrieve gw opn = (Inl t, [Fetch u]))
   \<or> (\<exists>t u. retrieve gw opn = (Inl t, [Fetch u, ReadBlob]))
   \<or> (\<exists>b u. retrieve gw opn =
         (Inr (createObjectURL gw b), [Fetch u, ReadBlob, CreateObjectURL b (createObjectURL gw b)]))"
proof (cases "downloadLink opn")
  case None
  then show ?thesis by (simp add: retrieve_def)
next
  case (Some link)
  show ?thesis
  proof (cases "link = []")
    case True
    with Some show ?thesis by (simp add: retrieve_def)
  next
    case False
    show ?thesis
    proof (cases "fetch gw (link @ ''&key='' @ API_KEY gw)")
      case (Inl t)
      with Some False show ?thesis by (simp add: retrieve_def)
    next
      case (Inr resp)
      show ?thesis
      proof (cases "ok resp")
        case False
        with Some \<open>link \<noteq> []\<close> Inr show ?thesis by (simp add: retrieve_def)
      next
        case True
        with Some \<open>link \<noteq> []\<close> Inr show ?thesis
          by (cases "blob resp") (simp_all add: retrieve_def)
      qed
    qed
  qed
qed

lemma retrieve_live:
  assumes "retrieve gw opn = (res, tr)"
  shows "liveAfter tr l = (case res of Inr u \<Rightarrow> u # l | Inl _ \<Rightarrow> l)
   \<and> (\<forall>u. res = Inr u \<longrightarrow> (\<exists>b. u = createObjectURL gw b))"
  using retrieve_cases [of gw opn] unfolding assms by auto

lemma generateVideoWithPrompt_live:
  assumes "generateVideoWithPrompt gw p ar im = Some (r, ev)"
  shows "liveAfter ev l = (case r of Inr u \<Rightarrow> u # l | Inl _ \<Rightarrow> l)
   \<and> (\<forall>u. r = Inr u \<longrightarrow> (\<exists>b. u = createObjectURL gw b))"
proof -
  obtain res tr where t: "tryBlock gw p ar im = Some (res, tr)"
    and r: "r = (case res of Inl t \<Rightarrow> Inl (catchBlock (typeErrorMessage gw) t) | Inr u \<Rightarrow> Inr u)"
    and ev: "ev = (case res of Inl t \<Rightarrow> tr @ [ConsoleError ''Error generating video with Veo:'' t] | Inr u \<Rightarrow> tr)"
    using assms by (auto simp: generateVideoWithPrompt_def split: option.splits sum.splits)
  have "liveAfter tr l = (case res of Inr u \<Rightarrow> u # l | Inl _ \<Rightarrow> l)
      \<and> (\<forall>u. res = Inr u \<longrightarrow> (\<exists>b. u = createObjectURL gw b))"
  proof (cases "generateVideos gw (videoRequest p ar im)")
    case (Inl e)
    with t show ?thesis by (auto simp: tryBlock_def)
  next
    case (Inr op0)
    show ?thesis
    proof (cases "awaitDone op0 (getVideosOperation gw)")
      case None
      with t Inr show ?thesis by (simp add: tryBlock_def)
    next
      case (Some a)
      obtain res1 tr1 where a: "a = (res1, tr1)" by (cases a)
      show ?thesis
      proof (cases res1)
        case (Inl e)
        with t Inr Some a awaitDone_live [of op0 "getVideosOperation gw" res1 tr1 l]
        show ?thesis by (auto simp: tryBlock_def)
      next
        case (Inr opn)
        obtain res2 tr2 where rt: "retrieve gw opn = (res2, tr2)" by (cases "retrieve gw opn")
        with t \<open>generateVideos gw (videoRequest p ar im) = Inr op0\<close> Some a Inr
        have "res = res2" "tr = GenerateVideos (videoRequest p ar im) # tr1 @ tr2"
          by (auto simp: tryBlock_def)
        with retrieve_live [OF rt, of l] awaitDone_live [of op0 "getVideosOperation gw" res1 tr1 l] Some a
        show ?thesis by (simp add: liveAfter_append)
      qed
    qed
  qed
  with r ev show ?thesis
    by (cases res) (simp_all add: liveAfter_append)
qed

lemma tidy_one_live: "tidy p \<Longrightarrow> length (liveURLs p) \<le> 1"
  by (auto simp: tidy_def split: option.splits if_splits)

lemma tidy_initial: "tidy initialPage"
  by (simp add: tidy_def initialPage_def)

lemma tidy_interact:
  assumes "tidy p" "calm p x"
  shows "tidy (interact p x)"
proof (cases x)
  case Mount
  with assms show ?thesis
    by (auto simp: tidy_def initialVideoGenerator_def split: option.splits)
next
  case Unmount
  with assms show ?thesis
    by (auto simp: tidy_def calm_def releaseVideoUrl_def split: option.splits if_splits list.splits)
next
  case SelectKey
  with assms show ?thesis
    by (auto simp: tidy_def split: option.splits if_splits)
next
  case (TypePrompt t)
  with assms show ?thesis
    by (auto simp: tidy_def split: option.splits if_splits)
next
  case ClickGenerate
  with assms show ?thesis
    by (auto simp: tidy_def submitBlocked_def beforeAwait_def releaseVideoUrl_def effectCleanup_def
        liveAfter_append split: option.splits if_splits)
next
  case (Settle gw)
  show ?thesis
  proof (cases "inFlight p")
    case Nil
    with Settle assms show ?thesis by simp
  next
    case (Cons c cs)
    obtain owner pr ar im where c: "c = (owner, pr, ar, im)" by (cases c)
    from assms(1) Cons obtain s where s: "view p = Some s" "VideoGenerator.isLoading s" "videoUrl s = None"
        "liveURLs p = []" "cs = []" "owner = mounts p"
      using c by (auto simp: tidy_def split: option.splits if_splits list.splits)
    show ?thesis
    proof (cases "generateVideoWithPrompt gw pr ar im")
      case None
      with Settle Cons c assms show ?thesis by simp
    next
      case (Some a)
      obtain r ev where a: "a = (r, ev)" by (cases a)
      from generateVideoWithPrompt_live [OF Some [unfolded a], of "[]"]
      have live: "liveAfter ev [] = (case r of Inr u \<Rightarrow> [u] | Inl _ \<Rightarrow> [])"
        and rng: "\<forall>u. r = Inr u \<longrightarrow> (\<exists>b. u = createObjectURL gw b)"
        by simp_all
      from assms(2) Settle have ne: "\<forall>b. createObjectURL gw b \<noteq> []"
        by (simp add: calm_def)
      have p': "interact p x = p\<lparr> view := Some (afterAwait r s), inFlight := [],
           liveURLs := liveAfter (ev @ effectCleanup s (afterAwait r s)) [] \<rparr>"
        using Settle Cons c s Some a by simp
      have clean: "effectCleanup s s' = []" for s'
        using s by (simp add: effectCleanup_def releaseVideoUrl_def)
      show ?thesis
        unfolding p' using live rng ne s
        by (cases r) (auto simp: tidy_def afterAwait_def liveAfter_append clean)
    qed
  qed
qed

lemma calm_run_tidy: "tidy p \<Longrightarrow> calmRun p xs \<Longrightarrow> tidy (interactions p xs)"
  unfolding interactions_def
  by (induction xs arbitrary: p) (simp_all add: tidy_interact)

lemma calm_run_one_live:
  "calmRun initialPage xs \<Longrightarrow> length (liveURLs (interactions initialPage xs)) \<le> 1"
  using calm_run_tidy [OF tidy_initial] tidy_one_live by blast

end
